theory Spec2Isabelle
  imports Complex_Main "HOL-Library.AList"
begin

section \<open>JavaScript values\<close>

text \<open>
  The agents are JavaScript/TypeScript classes. A number is a rational or one of the
  three non-finite IEEE values, so a division by zero is a value of the model and not
  HOL's \<open>x / 0 = 0\<close>. The consensus calculation and the health check use the exact
  operations of this section; what is proved of them is the comparison of a quotient of
  two counts with a threshold. The execution agent and the dispute resolution use the
  rounded operations of the next section. Every call of \<open>Date.now()\<close> is a parameter
  \<open>now\<close> (milliseconds).
\<close>

datatype jsnum = Num rat | PosInf | NegInf | NaN

text \<open>\<open>a / b\<close> on two finite numbers.\<close>

definition js_div :: "rat \<Rightarrow> rat \<Rightarrow> jsnum" where
  "js_div a b =
     (if b = 0 then (if a = 0 then NaN else if 0 < a then PosInf else NegInf)
      else Num (a / b))"

text \<open>\<open>x * n\<close> and \<open>x >= t\<close> with a finite right operand.\<close>

fun js_times :: "jsnum \<Rightarrow> rat \<Rightarrow> jsnum" where
  "js_times (Num x) n = Num (x * n)"
| "js_times PosInf n = (if 0 < n then PosInf else if n < 0 then NegInf else NaN)"
| "js_times NegInf n = (if 0 < n then NegInf else if n < 0 then PosInf else NaN)"
| "js_times NaN n = NaN"

fun js_ge :: "jsnum \<Rightarrow> rat \<Rightarrow> bool" where
  "js_ge (Num x) t = (t \<le> x)"
| "js_ge PosInf t = True"
| "js_ge NegInf t = False"
| "js_ge NaN t = False"

text \<open>
  The idiom \<open>x || d\<close> on an optional number: \<open>undefined\<close> (here \<open>None\<close>) and \<open>0\<close>
  are falsy and give the default.
\<close>

definition js_or :: "rat option \<Rightarrow> rat \<Rightarrow> rat" where
  "js_or x d = (case x of None \<Rightarrow> d | Some v \<Rightarrow> if v = 0 then d else v)"

text \<open>What a \<open>throw\<close> carries: an \<open>Error\<close> (a \<open>TypeError\<close> is one) with its message,
  or some other value.\<close>

datatype thrown = Error string | TypeError string | NonError

section \<open>Doubles\<close>

text \<open>
  The execution agent and the dispute resolution compute on IEEE 754 doubles, and their
  thresholds are met or missed by one rounding. A finite double is the rational it
  denotes; \<open>round64\<close> gives the double nearest to a rational, the one with the even
  mantissa of two that are equally near, and an infinity when that would be \<open>2^1024\<close>.
  Every arithmetic operation is the exact operation followed by \<open>round64\<close>. That
  \<open>round64\<close> returns a double, and that no double is nearer to its argument, are the
  lemmas \<open>round64_double\<close> and \<open>round64_nearest\<close> below.
\<close>

definition two_to :: "int \<Rightarrow> rat" where
  "two_to e = (if 0 \<le> e then 2 ^ nat e else 1 / 2 ^ nat (- e))"

definition round_half_even :: "rat \<Rightarrow> int" where
  "round_half_even m =
     (let f = \<lfloor>m\<rfloor>; d = m - of_int f
      in if d < 1/2 then f else if 1/2 < d then f + 1 else if even f then f else f + 1)"

text \<open>The binary exponent of a positive rational, \<open>\<lfloor>log\<^sub>2 a\<rfloor>\<close>, kept in the range of
  the format: not below \<open>-1022\<close>, where the subnormal numbers begin.\<close>

fun halvings :: "nat \<Rightarrow> rat \<Rightarrow> int" where
  "halvings 0 a = 0"
| "halvings (Suc n) a = (if a < 2 then 0 else 1 + halvings n (a / 2))"

fun doublings :: "nat \<Rightarrow> rat \<Rightarrow> int" where
  "doublings 0 a = 0"
| "doublings (Suc n) a = (if 1 \<le> a then 0 else 1 + doublings n (2 * a))"

definition exponent :: "rat \<Rightarrow> int" where
  "exponent a = (if 1 \<le> a then halvings 1100 a else - doublings 1022 a)"

text \<open>A positive rational rounded to 53 significant bits.\<close>

definition round_pos :: "rat \<Rightarrow> rat" where
  "round_pos a =
     of_int (round_half_even (a / two_to (exponent a - 52))) * two_to (exponent a - 52)"

definition round64 :: "rat \<Rightarrow> jsnum" where
  "round64 x =
     (if x = 0 then Num 0
      else if 0 < x then (if two_to 1024 \<le> round_pos x then PosInf else Num (round_pos x))
      else (if two_to 1024 \<le> round_pos (- x) then NegInf else Num (- round_pos (- x))))"

text \<open>
  A decimal literal of the source text, and a number of an input object given as a
  rational, is the double nearest to it. Integers below \<open>2^53\<close> in magnitude are doubles
  and are written \<open>Num k\<close>; so are the timestamps, which count milliseconds.
\<close>

definition lit :: "rat \<Rightarrow> jsnum" where
  "lit x = round64 x"

text \<open>A property that may be missing, read as a number: \<open>undefined\<close> in arithmetic is
  \<open>NaN\<close>.\<close>

definition to_number :: "rat option \<Rightarrow> jsnum" where
  "to_number x = (case x of None \<Rightarrow> NaN | Some v \<Rightarrow> lit v)"

text \<open>The idiom \<open>x || d\<close> on doubles: \<open>undefined\<close> and zero give the default.\<close>

definition fl_or :: "rat option \<Rightarrow> rat \<Rightarrow> jsnum" where
  "fl_or x d = (case x of None \<Rightarrow> lit d | Some v \<Rightarrow> if lit v = Num 0 then lit d else lit v)"

text \<open>\<open>x <= y\<close>, \<open>x < y\<close> and \<open>x > y\<close>: every comparison with \<open>NaN\<close> is false.\<close>

fun fl_le :: "jsnum \<Rightarrow> jsnum \<Rightarrow> bool" where
  "fl_le NaN y = False"
| "fl_le x NaN = False"
| "fl_le NegInf y = True"
| "fl_le x PosInf = True"
| "fl_le (Num a) (Num b) = (a \<le> b)"
| "fl_le x y = False"

definition fl_lt :: "jsnum \<Rightarrow> jsnum \<Rightarrow> bool" where
  "fl_lt x y = (fl_le x y \<and> x \<noteq> y)"

definition fl_gt :: "jsnum \<Rightarrow> jsnum \<Rightarrow> bool" where
  "fl_gt x y = fl_lt y x"

text \<open>\<open>-x\<close>, \<open>x + y\<close>, \<open>x - y\<close>, \<open>x * y\<close>, \<open>x / y\<close>, \<open>Math.abs(x)\<close>, \<open>Math.min(x, y)\<close>
  and \<open>Math.max(x, y)\<close>. The sign of zero is not modelled; it would show in a division by
  \<open>-0\<close> only, and the divisors below are literals, a length, or a number that \<open>||\<close> has
  tested.\<close>

fun fl_neg :: "jsnum \<Rightarrow> jsnum" where
  "fl_neg (Num a) = Num (- a)"
| "fl_neg PosInf = NegInf"
| "fl_neg NegInf = PosInf"
| "fl_neg NaN = NaN"

fun fl_add :: "jsnum \<Rightarrow> jsnum \<Rightarrow> jsnum" where
  "fl_add NaN y = NaN"
| "fl_add x NaN = NaN"
| "fl_add (Num a) (Num b) = round64 (a + b)"
| "fl_add PosInf NegInf = NaN"
| "fl_add NegInf PosInf = NaN"
| "fl_add PosInf y = PosInf"
| "fl_add NegInf y = NegInf"
| "fl_add (Num a) y = y"

definition fl_sub :: "jsnum \<Rightarrow> jsnum \<Rightarrow> jsnum" where
  "fl_sub x y = fl_add x (fl_neg y)"

text \<open>The infinity with the sign of a rational that is not zero.\<close>

definition infinity :: "rat \<Rightarrow> jsnum" where
  "infinity s = (if 0 < s then PosInf else NegInf)"

fun fl_mul :: "jsnum \<Rightarrow> jsnum \<Rightarrow> jsnum" where
  "fl_mul NaN y = NaN"
| "fl_mul x NaN = NaN"
| "fl_mul (Num a) (Num b) = round64 (a * b)"
| "fl_mul (Num a) PosInf = (if a = 0 then NaN else infinity a)"
| "fl_mul (Num a) NegInf = (if a = 0 then NaN else infinity (- a))"
| "fl_mul PosInf (Num b) = (if b = 0 then NaN else infinity b)"
| "fl_mul NegInf (Num b) = (if b = 0 then NaN else infinity (- b))"
| "fl_mul PosInf PosInf = PosInf"
| "fl_mul NegInf NegInf = PosInf"
| "fl_mul PosInf NegInf = NegInf"
| "fl_mul NegInf PosInf = NegInf"

fun fl_div :: "jsnum \<Rightarrow> jsnum \<Rightarrow> jsnum" where
  "fl_div NaN y = NaN"
| "fl_div x NaN = NaN"
| "fl_div (Num a) (Num b) =
     (if b = 0 then (if a = 0 then NaN else infinity a) else round64 (a / b))"
| "fl_div (Num a) y = Num 0"
| "fl_div PosInf (Num b) = (if b < 0 then NegInf else PosInf)"
| "fl_div NegInf (Num b) = (if b < 0 then PosInf else NegInf)"
| "fl_div x y = NaN"

fun fl_abs :: "jsnum \<Rightarrow> jsnum" where
  "fl_abs (Num a) = Num \<bar>a\<bar>"
| "fl_abs PosInf = PosInf"
| "fl_abs NegInf = PosInf"
| "fl_abs NaN = NaN"

definition fl_min :: "jsnum \<Rightarrow> jsnum \<Rightarrow> jsnum" where
  "fl_min x y = (if x = NaN \<or> y = NaN then NaN else if fl_le x y then x else y)"

definition fl_max :: "jsnum \<Rightarrow> jsnum \<Rightarrow> jsnum" where
  "fl_max x y = (if x = NaN \<or> y = NaN then NaN else if fl_le x y then y else x)"

section \<open>Deliberation: the consensus calculation\<close>

datatype direction = Bullish | Bearish | Neutral

fun direction_name :: "direction \<Rightarrow> string" where
  "direction_name Bullish = ''bullish''"
| "direction_name Bearish = ''bearish''"
| "direction_name Neutral = ''neutral''"

text \<open>An analyst prediction \<open>p\<close>: \<open>p.agentId\<close>, \<open>p.prediction\<close> (with \<open>direction\<close>
  and \<open>strength\<close>) and \<open>p.confidence\<close>. The prediction, its direction, its strength and
  the confidence may be missing; a direction that is present is one of the three of the
  data model, the keys of the tally in \<open>analyzePredictions\<close>.\<close>

record prediction_body =
  direction :: "direction option"
  strength :: "rat option"

record prediction =
  agentId :: string
  prediction :: "prediction_body option"
  confidence :: "rat option"

text \<open>The tally object \<open>{ bullish: 0, bearish: 0, neutral: 0 }\<close>.\<close>

record directions =
  bullish :: nat
  bearish :: nat
  neutral :: nat

definition no_votes :: directions where
  "no_votes = \<lparr>bullish = 0, bearish = 0, neutral = 0\<rparr>"

fun count_of :: "directions \<Rightarrow> direction \<Rightarrow> nat" where
  "count_of ds Bullish = bullish ds"
| "count_of ds Bearish = bearish ds"
| "count_of ds Neutral = neutral ds"

text \<open>\<open>directions[d]++\<close>\<close>

fun increment :: "direction \<Rightarrow> directions \<Rightarrow> directions" where
  "increment Bullish ds = ds\<lparr>bullish := Suc (bullish ds)\<rparr>"
| "increment Bearish ds = ds\<lparr>bearish := Suc (bearish ds)\<rparr>"
| "increment Neutral ds = ds\<lparr>neutral := Suc (neutral ds)\<rparr>"

text \<open>\<open>Object.entries(directions)\<close>, in the order of the object literal.\<close>

definition entries :: "directions \<Rightarrow> (direction \<times> nat) list" where
  "entries ds = [(Bullish, bullish ds), (Bearish, bearish ds), (Neutral, neutral ds)]"

record analysis =
  totalPredictions :: nat
  tally :: directions
  averageStrength :: jsnum
  averageConfidence :: jsnum
  predictions :: "prediction list"

text \<open>One pass of the \<open>for (const prediction of predictions)\<close> loop of
  \<open>analyzePredictions\<close>; the state is \<open>(directions, strengths, confidences)\<close>.\<close>

fun analyze_step ::
  "directions \<times> rat list \<times> rat list \<Rightarrow> prediction \<Rightarrow> directions \<times> rat list \<times> rat list"
where
  "analyze_step (ds, strengths, confidences) p =
     (case prediction p of
        None \<Rightarrow> (ds, strengths, confidences @ [js_or (confidence p) (1/2)])
      | Some b \<Rightarrow>
          (case direction b of
             None \<Rightarrow> (ds, strengths, confidences @ [js_or (confidence p) (1/2)])
           | Some d \<Rightarrow>
               (increment d ds, strengths @ [js_or (strength b) (1/2)],
                confidences @ [js_or (confidence p) (1/2)])))"

definition analyzePredictions :: "prediction list \<Rightarrow> analysis" where
  "analyzePredictions ps =
     (case foldl analyze_step (no_votes, [], []) ps of
        (ds, strengths, confidences) \<Rightarrow>
          \<lparr>totalPredictions = length ps,
           tally = ds,
           averageStrength = js_div (sum_list strengths) (of_nat (length strengths)),
           averageConfidence = js_div (sum_list confidences) (of_nat (length confidences)),
           predictions = ps\<rparr>)"

record consensus =
  hasConsensus :: bool
  dominant :: direction
  ratio :: jsnum
  threshold :: rat
  supportingAgents :: jsnum
  meanConfidence :: jsnum

text \<open>The callback of the \<open>reduce\<close>: \<open>directions[a[0]] > directions[b[0]] ? a : b\<close>.\<close>

definition more_common ::
  "directions \<Rightarrow> direction \<times> nat \<Rightarrow> direction \<times> nat \<Rightarrow> direction \<times> nat" where
  "more_common ds a b = (if count_of ds (fst b) < count_of ds (fst a) then a else b)"

text \<open>\<open>reduce\<close> without an initial value starts from the first entry; the tally always
  has its three entries.\<close>

definition dominantDirection :: "directions \<Rightarrow> direction \<times> nat" where
  "dominantDirection ds = foldl (more_common ds) (hd (entries ds)) (tl (entries ds))"

text \<open>In the record, \<open>dominant\<close> is the field \<open>direction\<close>, \<open>ratio\<close> the field
  \<open>strength\<close> and \<open>meanConfidence\<close> the field \<open>averageConfidence\<close> of the object
  that \<open>calculateConsensus\<close> returns.\<close>

definition calculateConsensus :: "analysis \<Rightarrow> rat \<Rightarrow> consensus" where
  "calculateConsensus a thr =
     (let total = totalPredictions a;
          dom = dominantDirection (tally a);
          consensusRatio = js_div (of_nat (snd dom)) (of_nat total)
      in \<lparr>hasConsensus = js_ge consensusRatio thr,
          dominant = fst dom,
          ratio = consensusRatio,
          threshold = thr,
          supportingAgents = js_times consensusRatio (of_nat total),
          meanConfidence = averageConfidence a\<rparr>)"

subsection \<open>Votes and shares\<close>




text \<open>Scenario A of the specification.\<close>

definition scenario_A :: "prediction list" where
  "scenario_A =
     [\<lparr>agentId = ''a1'', prediction = Some \<lparr>direction = Some Bullish, strength = None\<rparr>,
        confidence = Some (9/10)\<rparr>,
      \<lparr>agentId = ''a2'', prediction = Some \<lparr>direction = Some Bullish, strength = None\<rparr>,
        confidence = Some (7/10)\<rparr>,
      \<lparr>agentId = ''a3'', prediction = Some \<lparr>direction = Some Bearish, strength = None\<rparr>,
        confidence = Some (6/10)\<rparr>]"

section \<open>Objects returned to callers\<close>

text \<open>
  What an agent returns from \<open>processTask\<close> is an object literal; it is modelled as the
  list of its properties in the order of the literal. Reading a property that the object
  does not have gives \<open>undefined\<close>.
\<close>

datatype jsval =
    JUndefined
  | JNull
  | JBool bool
  | JNumber jsnum
  | JString string
  | JArray "jsval list"
  | JObject "(string \<times> jsval) list"

type_synonym jsobject = "(string \<times> jsval) list"

definition get :: "jsobject \<Rightarrow> string \<Rightarrow> jsval" where
  "get obj k = (case map_of obj k of None \<Rightarrow> JUndefined | Some v \<Rightarrow> v)"

definition has_prop :: "jsobject \<Rightarrow> string \<Rightarrow> bool" where
  "has_prop obj k = (map_of obj k \<noteq> None)"

text \<open>Truthiness, as \<open>if (v)\<close> tests it.\<close>

fun truthy :: "jsval \<Rightarrow> bool" where
  "truthy JUndefined = False"
| "truthy JNull = False"
| "truthy (JBool b) = b"
| "truthy (JNumber n) = (n \<noteq> NaN \<and> n \<noteq> Num 0)"
| "truthy (JString s) = (s \<noteq> [])"
| "truthy (JArray xs) = True"
| "truthy (JObject ps) = True"

text \<open>\<open>error instanceof Error ? error.message : 'Unknown error'\<close>\<close>

fun error_message :: "thrown \<Rightarrow> string" where
  "error_message (Error m) = m"
| "error_message (TypeError m) = m"
| "error_message NonError = ''Unknown error''"

text \<open>An optional number as a value: \<open>undefined\<close> when it is missing.\<close>

definition js_number :: "rat option \<Rightarrow> jsval" where
  "js_number x = (case x of None \<Rightarrow> JUndefined | Some v \<Rightarrow> JNumber (lit v))"

definition js_string :: "string option \<Rightarrow> jsval" where
  "js_string x = (case x of None \<Rightarrow> JUndefined | Some v \<Rightarrow> JString v)"

text \<open>A string inside a template literal: \<open>undefined\<close> prints as the word.\<close>

definition template_string :: "string option \<Rightarrow> string" where
  "template_string x = (case x of None \<Rightarrow> ''undefined'' | Some v \<Rightarrow> v)"

section \<open>Deliberation: dispute resolution\<close>

text \<open>An evidence item: its \<open>source\<close> and its \<open>timestamp\<close> in milliseconds.\<close>

record evidence =
  source :: string
  timestamp :: int

definition calculateEvidenceWeight :: "int \<Rightarrow> evidence \<Rightarrow> jsnum" where
  "calculateEvidenceWeight now e =
     (let weight = lit (5/10);
          weight = (if source e = ''onchain'' then fl_add weight (lit (3/10)) else weight);
          weight = (if source e = ''news'' then fl_add weight (lit (2/10)) else weight);
          weight = (if source e = ''social'' then fl_add weight (lit (1/10)) else weight);
          ageHours = fl_div (fl_sub (Num (of_int now)) (Num (of_int (timestamp e))))
                       (Num (1000 * 60 * 60));
          weight = (if fl_lt ageHours (Num 1) then fl_add weight (lit (2/10))
                    else if fl_lt ageHours (Num 24) then fl_add weight (lit (1/10))
                    else weight)
      in fl_min (Num 1) weight)"

record conflict =
  agents :: "string list"
  kind :: string
  severity :: jsnum

record resolution =
  conflicts :: "conflict list"
  evidenceWeights :: "(string \<times> jsnum) list"
  totalConflicts :: nat
  evidenceCount :: nat

text \<open>The inner loop of \<open>analyzeConflict\<close>: \<open>pred1\<close> against each later \<open>pred2\<close>.
  Reading \<open>.direction\<close> of a missing \<open>prediction\<close> throws; the severity
  \<open>Math.abs(pred1.confidence - pred2.confidence)\<close> is \<open>NaN\<close> when a confidence is
  missing.\<close>

fun conflicts_with :: "prediction \<Rightarrow> prediction list \<Rightarrow> thrown + conflict list" where
  "conflicts_with pred1 [] = Inr []"
| "conflicts_with pred1 (pred2 # rest) =
     (case prediction pred1 of
        None \<Rightarrow> Inl (TypeError ''Cannot read properties of undefined (reading direction)'')
      | Some b1 \<Rightarrow>
          (case prediction pred2 of
             None \<Rightarrow> Inl (TypeError ''Cannot read properties of undefined (reading direction)'')
           | Some b2 \<Rightarrow>
               (case conflicts_with pred1 rest of
                  Inl e \<Rightarrow> Inl e
                | Inr cs \<Rightarrow>
                    if direction b1 \<noteq> direction b2
                    then Inr (\<lparr>agents = [agentId pred1, agentId pred2],
                               kind = ''directional_conflict'',
                               severity = fl_abs (fl_sub (to_number (confidence pred1))
                                                          (to_number (confidence pred2)))\<rparr>
                              # cs)
                    else Inr cs)))"

text \<open>The outer loop.\<close>

fun all_conflicts :: "prediction list \<Rightarrow> thrown + conflict list" where
  "all_conflicts [] = Inr []"
| "all_conflicts (pred1 # rest) =
     (case conflicts_with pred1 rest of
        Inl e \<Rightarrow> Inl e
      | Inr cs \<Rightarrow> (case all_conflicts rest of Inl e \<Rightarrow> Inl e | Inr ds \<Rightarrow> Inr (cs @ ds)))"

text \<open>\<open>evidenceWeights[item.source] = this.calculateEvidenceWeight(item)\<close>, item by item:
  a later item of the same source overwrites the weight of an earlier one.\<close>

definition weigh ::
  "int \<Rightarrow> (string \<times> jsnum) list \<Rightarrow> evidence \<Rightarrow> (string \<times> jsnum) list" where
  "weigh now table item = AList.update (source item) (calculateEvidenceWeight now item) table"

definition weigh_all :: "int \<Rightarrow> evidence list \<Rightarrow> (string \<times> jsnum) list" where
  "weigh_all now items = foldl (weigh now) [] items"

definition analyzeConflict ::
  "int \<Rightarrow> prediction list \<Rightarrow> evidence list \<Rightarrow> thrown + resolution" where
  "analyzeConflict now conflictingPredictions items =
     (case all_conflicts conflictingPredictions of
        Inl e \<Rightarrow> Inl e
      | Inr cs \<Rightarrow>
          Inr \<lparr>conflicts = cs,
               evidenceWeights = weigh_all now items,
               totalConflicts = length cs,
               evidenceCount = length items\<rparr>)"

record decision =
  outcome :: string
  certainty :: jsnum
  strategy :: string
  requiresHumanReview :: bool

text \<open>In the record, \<open>outcome\<close> is the field \<open>resolution\<close> and \<open>certainty\<close> the field
  \<open>confidence\<close> of the object that \<open>makeResolutionDecision\<close> returns.\<close>

text \<open>\<open>conflicts.reduce((sum, c) => sum + c.severity, 0) / conflicts.length\<close>: the sum
  is rounded after every addition, and \<open>0 / 0\<close> is \<open>NaN\<close>.\<close>

definition conflictSeverity :: "resolution \<Rightarrow> jsnum" where
  "conflictSeverity r =
     fl_div (foldl (\<lambda>sum c. fl_add sum (severity c)) (Num 0) (conflicts r))
       (Num (of_nat (length (conflicts r))))"

definition hasStrongEvidence :: "resolution \<Rightarrow> bool" where
  "hasStrongEvidence r =
     list_ex (\<lambda>weight. fl_gt weight (lit (8/10))) (map snd (evidenceWeights r))"

definition makeResolutionDecision :: "resolution \<Rightarrow> decision" where
  "makeResolutionDecision r =
     \<lparr>outcome = (if hasStrongEvidence r then ''evidence_based'' else ''majority_vote''),
      certainty = (if hasStrongEvidence r then lit (9/10)
                   else fl_max (lit (3/10)) (fl_sub (Num 1) (conflictSeverity r))),
      strategy = (if hasStrongEvidence r then ''Follow strongest evidence''
                  else ''Defer to majority consensus''),
      requiresHumanReview = fl_gt (conflictSeverity r) (lit (8/10))\<rparr>"

section \<open>The deliberation agent\<close>

text \<open>The constructor passes \<open>config.type\<close> to the base class and keeps it as
  \<open>deliberationType\<close>, so \<open>getType()\<close> returns \<open>deliberationType\<close>; likewise
  \<open>executionType\<close> and \<open>analysisType\<close> for the other agents below.\<close>

record DeliberationAgent =
  agent_id :: string
  deliberationType :: string
  role :: string

text \<open>
  The argument of \<open>facilitateConsensus\<close> and of \<open>resolveDispute\<close> is an object of which
  only the property \<open>data\<close> is read; \<open>data\<close> carries \<open>predictions\<close> and \<open>threshold\<close>,
  or \<open>conflictingPredictions\<close> and \<open>evidence\<close>. The other properties are those that
  \<open>deliberate\<close> puts into the object it builds.
\<close>

record deliberation_data =
  data_predictions :: "prediction list option"
  data_threshold :: "rat option"
  conflictingPredictions :: "prediction list option"
  evidence_items :: "evidence list option"

record deliberation_arg =
  arg_data :: "deliberation_data option"
  arg_proposals :: "prediction list option"
  consensusThreshold :: "rat option"
  arg_threshold :: "rat option"

text \<open>The empty object \<open>{}\<close>.\<close>

definition empty_arg :: deliberation_arg where
  "empty_arg = \<lparr>arg_data = None, arg_proposals = None, consensusThreshold = None,
                 arg_threshold = None\<rparr>"

definition consensus_object :: "consensus \<Rightarrow> jsval" where
  "consensus_object c =
     JObject [(''hasConsensus'', JBool (hasConsensus c)),
              (''direction'', JString (direction_name (dominant c))),
              (''strength'', JNumber (ratio c)),
              (''threshold'', JNumber (Num (threshold c))),
              (''supportingAgents'', JNumber (supportingAgents c)),
              (''averageConfidence'', JNumber (meanConfidence c))]"

text \<open>
  \<open>facilitateConsensus\<close> destructures \<open>task.data\<close>, which throws when \<open>data\<close> is missing,
  and iterates over \<open>predictions\<close>, which throws when they are missing. The free text
  \<open>reasoning\<close> of the returned object prints doubles and is left out.
\<close>

definition facilitateConsensus ::
  "DeliberationAgent \<Rightarrow> int \<Rightarrow> deliberation_arg \<Rightarrow> thrown + jsobject" where
  "facilitateConsensus ag now task =
     (case arg_data task of
        None \<Rightarrow> Inl (TypeError ''Cannot destructure property predictions of task.data as it is undefined.'')
      | Some d \<Rightarrow>
          (case data_predictions d of
             None \<Rightarrow> Inl (TypeError ''predictions is not iterable'')
           | Some ps \<Rightarrow>
               (let analysis = analyzePredictions ps;
                    consensus = calculateConsensus analysis (js_or (data_threshold d) (8/10))
                in Inr [(''agentId'', JString (agent_id ag)),
                        (''deliberationType'', JString ''consensus''),
                        (''timestamp'', JNumber (Num (of_int now))),
                        (''consensus'', consensus_object consensus),
                        (''confidence'', JNumber (ratio consensus)),
                        (''participatingAgents'', JArray (map (\<lambda>p. JString (agentId p)) ps))])))"

definition conflict_object :: "conflict \<Rightarrow> jsval" where
  "conflict_object c =
     JObject [(''agents'', JArray (map JString (agents c))),
              (''type'', JString (kind c)),
              (''severity'', JNumber (severity c))]"

definition resolution_object :: "resolution \<Rightarrow> jsval" where
  "resolution_object r =
     JObject [(''conflicts'', JArray (map conflict_object (conflicts r))),
              (''evidenceWeights'',
                 JObject (map (\<lambda>(k, w). (k, JNumber w)) (evidenceWeights r))),
              (''totalConflicts'', JNumber (Num (of_nat (totalConflicts r)))),
              (''evidenceCount'', JNumber (Num (of_nat (evidenceCount r))))]"

definition decision_object :: "decision \<Rightarrow> jsval" where
  "decision_object d =
     JObject [(''resolution'', JString (outcome d)),
              (''confidence'', JNumber (certainty d)),
              (''strategy'', JString (strategy d)),
              (''requiresHumanReview'', JBool (requiresHumanReview d))]"

text \<open>\<open>resolveDispute\<close>; again the free text \<open>reasoning\<close> is left out.\<close>

definition resolveDispute ::
  "DeliberationAgent \<Rightarrow> int \<Rightarrow> deliberation_arg \<Rightarrow> thrown + jsobject" where
  "resolveDispute ag now task =
     (case arg_data task of
        None \<Rightarrow> Inl (TypeError ''Cannot destructure property conflictingPredictions of task.data as it is undefined.'')
      | Some d \<Rightarrow>
          (case conflictingPredictions d of
             None \<Rightarrow> Inl (TypeError ''Cannot read properties of undefined (reading length)'')
           | Some ps \<Rightarrow>
               (case evidence_items d of
                  None \<Rightarrow>
                    (case all_conflicts ps of
                       Inl e \<Rightarrow> Inl e
                     | Inr cs \<Rightarrow> Inl (TypeError ''evidence is not iterable''))
                | Some items \<Rightarrow>
                    (case analyzeConflict now ps items of
                       Inl e \<Rightarrow> Inl e
                     | Inr r \<Rightarrow>
                         (let d = makeResolutionDecision r
                          in Inr [(''agentId'', JString (agent_id ag)),
                                  (''deliberationType'', JString ''dispute_resolution''),
                                  (''timestamp'', JNumber (Num (of_int now))),
                                  (''decision'', decision_object d),
                                  (''confidence'', JNumber (certainty d)),
                                  (''conflictingAgents'',
                                     JArray (map (\<lambda>p. JString (agentId p)) ps)),
                                  (''resolution'', resolution_object r)])))))"

text \<open>\<open>deliberate\<close> dispatches on the agent's type and builds the argument object itself:
  \<open>{ proposals, consensusThreshold }\<close> for the facilitator and
  \<open>{ proposals, threshold }\<close> for the resolver. Neither has a property \<open>data\<close>.\<close>

definition deliberate ::
  "DeliberationAgent \<Rightarrow> int \<Rightarrow> prediction list \<Rightarrow> rat \<Rightarrow> thrown + jsobject" where
  "deliberate ag now proposals thr =
     (if deliberationType ag = ''facilitator''
      then facilitateConsensus ag now
             \<lparr>arg_data = None, arg_proposals = Some proposals,
              consensusThreshold = Some thr, arg_threshold = None\<rparr>
      else if deliberationType ag = ''resolver''
      then resolveDispute ag now
             \<lparr>arg_data = None, arg_proposals = Some proposals,
              consensusThreshold = None, arg_threshold = Some thr\<rparr>
      else Inl (Error (''Unknown deliberation type: '' @ deliberationType ag)))"

text \<open>A task as the deliberation agent reads it: \<open>task.type\<close>, \<open>task.proposals\<close>,
  \<open>task.consensus_threshold\<close> and \<open>task.dispute\<close>; \<open>task.data\<close> is what the orchestrator
  sends, and \<open>processTask\<close> never reads it.\<close>

record deliberation_task =
  task_type :: string
  proposals :: "prediction list option"
  consensus_threshold :: "rat option"
  dispute :: "deliberation_arg option"
  task_data :: jsval

text \<open>The object of the \<open>catch\<close> branch, shared by the agents.\<close>

definition failure :: "string \<Rightarrow> int \<Rightarrow> string \<Rightarrow> thrown \<Rightarrow> jsobject" where
  "failure aid now ty e =
     [(''agentId'', JString aid),
      (''taskType'', JString ty),
      (''timestamp'', JNumber (Num (of_int now))),
      (''success'', JBool False),
      (''error'', JString (error_message e))]"

text \<open>The object of the \<open>default\<close> branch of the \<open>switch\<close>.\<close>

definition unknown_task :: "string \<Rightarrow> int \<Rightarrow> string \<Rightarrow> jsobject" where
  "unknown_task aid now ty =
     [(''agentId'', JString aid),
      (''taskType'', JString ty),
      (''timestamp'', JNumber (Num (of_int now))),
      (''success'', JBool False),
      (''error'', JString ''Unknown task type'')]"

definition DeliberationAgent_processTask :: "DeliberationAgent \<Rightarrow> int \<Rightarrow> deliberation_task \<Rightarrow> jsobject" where
  "DeliberationAgent_processTask ag now task =
     (if task_type task = ''deliberate'' then
        (case deliberate ag now (case proposals task of None \<Rightarrow> [] | Some ps \<Rightarrow> ps)
                (js_or (consensus_threshold task) (8/10)) of
           Inr result \<Rightarrow>
             [(''agentId'', JString (agent_id ag)),
              (''taskType'', JString ''deliberation''),
              (''timestamp'', JNumber (Num (of_int now))),
              (''success'', JBool True),
              (''result'', JObject result)]
         | Inl e \<Rightarrow> failure (agent_id ag) now (task_type task) e)
      else if task_type task = ''resolve_dispute'' then
        (case resolveDispute ag now (case dispute task of None \<Rightarrow> empty_arg | Some d \<Rightarrow> d) of
           Inr resolution \<Rightarrow>
             [(''agentId'', JString (agent_id ag)),
              (''taskType'', JString ''dispute_resolution''),
              (''timestamp'', JNumber (Num (of_int now))),
              (''success'', JBool True),
              (''resolution'', JObject resolution)]
         | Inl e \<Rightarrow> failure (agent_id ag) now (task_type task) e)
      else unknown_task (agent_id ag) now (task_type task))"

section \<open>The execution agent\<close>

record ExecutionAgent =
  exec_id :: string
  executionType :: string
  exec_role :: string

record market_data =
  volatility :: "rat option"

record trade =
  trade_amount :: "rat option"

record market_conditions =
  liquidity :: "rat option"

text \<open>The property \<open>data\<close> of the argument of \<open>manageRisk\<close>, \<open>executeCrossChain\<close> and
  \<open>protectFromMEV\<close>, with every property that one of them reads. The prediction is read
  for its \<open>confidence\<close> only.\<close>

record execution_data =
  data_prediction :: "prediction option"
  marketData :: "market_data option"
  riskParameters :: jsval
  sourceChain :: "string option"
  targetChain :: "string option"
  amount :: "rat option"
  operation :: "string option"
  transaction :: "trade option"
  marketConditions :: "market_conditions option"

record execution_arg =
  exec_data :: "execution_data option"

record riskAssessment =
  overall :: jsnum
  assessment_confidence :: jsnum
  riskLevel :: string

record recommendation =
  action :: string
  maxExposure :: jsnum

text \<open>\<open>overall > 0.7 ? 'high' : overall > 0.4 ? 'medium' : 'low'\<close>\<close>

definition risk_level :: "jsnum \<Rightarrow> string" where
  "risk_level x =
     (if fl_gt x (lit (7/10)) then ''high''
      else if fl_gt x (lit (4/10)) then ''medium'' else ''low'')"

text \<open>\<open>assessRisk\<close> reads \<open>prediction.confidence\<close> and \<open>marketData.volatility\<close>; either
  read throws when the object is missing.\<close>

definition assessRisk ::
  "prediction option \<Rightarrow> market_data option \<Rightarrow> jsval \<Rightarrow> thrown + riskAssessment" where
  "assessRisk pred md params =
     (case pred of
        None \<Rightarrow> Inl (TypeError ''Cannot read properties of undefined (reading confidence)'')
      | Some p \<Rightarrow>
          (case md of
             None \<Rightarrow> Inl (TypeError ''Cannot read properties of undefined (reading volatility)'')
           | Some m \<Rightarrow>
               (let confidenceRisk = fl_sub (Num 1) (fl_or (confidence p) (5/10));
                    volatilityRisk = fl_div (fl_or (volatility m) (2/10)) (lit (5/10));
                    overall = fl_min (Num 1)
                                (fl_div (fl_add confidenceRisk volatilityRisk) (Num 2))
                in Inr \<lparr>overall = overall, assessment_confidence = lit (8/10),
                         riskLevel = risk_level overall\<rparr>)))"

definition generateRiskRecommendation :: "riskAssessment \<Rightarrow> recommendation" where
  "generateRiskRecommendation ra =
     (if riskLevel ra = ''high'' then \<lparr>action = ''reject'', maxExposure = Num 0\<rparr>
      else if riskLevel ra = ''medium''
      then \<lparr>action = ''proceed_with_caution'', maxExposure = lit (5/10)\<rparr>
      else \<lparr>action = ''proceed'', maxExposure = lit (8/10)\<rparr>)"

definition manageRisk :: "ExecutionAgent \<Rightarrow> int \<Rightarrow> execution_arg \<Rightarrow> thrown + jsobject" where
  "manageRisk ag now task =
     (case exec_data task of
        None \<Rightarrow> Inl (TypeError ''Cannot destructure property prediction of task.data as it is undefined.'')
      | Some d \<Rightarrow>
          (case assessRisk (data_prediction d) (marketData d) (riskParameters d) of
             Inl e \<Rightarrow> Inl e
           | Inr ra \<Rightarrow>
               (let rec = generateRiskRecommendation ra
                in Inr [(''agentId'', JString (exec_id ag)),
                        (''executionType'', JString ''risk_management''),
                        (''timestamp'', JNumber (Num (of_int now))),
                        (''riskAssessment'',
                           JObject [(''overall'', JNumber (overall ra)),
                                    (''confidence'', JNumber (assessment_confidence ra)),
                                    (''riskLevel'', JString (riskLevel ra))]),
                        (''recommendation'',
                           JObject [(''action'', JString (action rec)),
                                    (''maxExposure'', JNumber (maxExposure rec))]),
                        (''confidence'', JNumber (assessment_confidence ra)),
                        (''reasoning'',
                           JString (''Risk level: '' @ riskLevel ra @ '', Action: '' @ action rec))])))"

text \<open>\<open>amount * 0.005\<close> is \<open>NaN\<close> when the amount is missing.\<close>

definition fee :: "rat option \<Rightarrow> jsnum" where
  "fee a = fl_mul (to_number a) (lit (5/1000))"

definition executeCrossChain :: "ExecutionAgent \<Rightarrow> int \<Rightarrow> execution_arg \<Rightarrow> thrown + jsobject" where
  "executeCrossChain ag now task =
     (case exec_data task of
        None \<Rightarrow> Inl (TypeError ''Cannot destructure property sourceChain of task.data as it is undefined.'')
      | Some d \<Rightarrow>
          Inr [(''agentId'', JString (exec_id ag)),
               (''executionType'', JString ''cross_chain''),
               (''timestamp'', JNumber (Num (of_int now))),
               (''executionPlan'',
                  JObject [(''sourceChain'', js_string (sourceChain d)),
                           (''targetChain'', js_string (targetChain d)),
                           (''amount'', js_number (amount d)),
                           (''operation'', js_string (operation d)),
                           (''bridge'', JString ''Chainlink CCIP''),
                           (''estimatedTime'', JNumber (Num 15)),
                           (''fees'', JObject [(''total'', JNumber (fee (amount d)))])]),
               (''confidence'', JNumber (lit (9/10))),
               (''status'', JString ''planned''),
               (''reasoning'',
                  JString (''Cross-chain execution planned from '' @ template_string (sourceChain d)
                           @ '' to '' @ template_string (targetChain d)))])"

record mevRisk =
  mev_overall :: jsnum
  slippage :: jsnum
  mev_riskLevel :: string

definition assessMEVRisk ::
  "trade option \<Rightarrow> market_conditions option \<Rightarrow> thrown + mevRisk" where
  "assessMEVRisk tx mc =
     (case tx of
        None \<Rightarrow> Inl (TypeError ''Cannot read properties of undefined (reading amount)'')
      | Some t \<Rightarrow>
          (case mc of
             None \<Rightarrow> Inl (TypeError ''Cannot read properties of undefined (reading liquidity)'')
           | Some c \<Rightarrow>
               (let slippageRisk =
                      fl_min (Num 1)
                        (fl_mul (fl_div (fl_or (trade_amount t) 0) (fl_or (liquidity c) 1000000))
                           (Num 100))
                in Inr \<lparr>mev_overall = slippageRisk, slippage = slippageRisk,
                         mev_riskLevel = risk_level slippageRisk\<rparr>)))"

definition selectProtectionStrategy :: "mevRisk \<Rightarrow> string \<times> string" where
  "selectProtectionStrategy r =
     (if mev_riskLevel r = ''high'' then (''private_mempool'', ''aggressive_gas'')
      else if mev_riskLevel r = ''medium'' then (''split_transaction'', ''standard_gas'')
      else (''standard_protection'', ''standard_gas''))"

definition protectFromMEV :: "ExecutionAgent \<Rightarrow> int \<Rightarrow> execution_arg \<Rightarrow> thrown + jsobject" where
  "protectFromMEV ag now task =
     (case exec_data task of
        None \<Rightarrow> Inl (TypeError ''Cannot destructure property transaction of task.data as it is undefined.'')
      | Some d \<Rightarrow>
          (case assessMEVRisk (transaction d) (marketConditions d) of
             Inl e \<Rightarrow> Inl e
           | Inr r \<Rightarrow>
               (let strat = selectProtectionStrategy r
                in Inr [(''agentId'', JString (exec_id ag)),
                        (''executionType'', JString ''mev_protection''),
                        (''timestamp'', JNumber (Num (of_int now))),
                        (''mevRisk'',
                           JObject [(''overall'', JNumber (mev_overall r)),
                                    (''slippage'', JNumber (slippage r)),
                                    (''riskLevel'', JString (mev_riskLevel r))]),
                        (''protectionStrategy'',
                           JObject [(''primary'', JString (fst strat)),
                                    (''gasStrategy'', JString (snd strat))]),
                        (''confidence'', JNumber (lit (85/100))),
                        (''reasoning'',
                           JString (''MEV risk: '' @ mev_riskLevel r @ '', Protection: ''
                                    @ fst strat))])))"

definition execute :: "ExecutionAgent \<Rightarrow> int \<Rightarrow> execution_arg \<Rightarrow> thrown + jsobject" where
  "execute ag now details =
     (if executionType ag = ''risk_manager'' then manageRisk ag now details
      else if executionType ag = ''cross_chain'' then executeCrossChain ag now details
      else if executionType ag = ''mev_protector'' then protectFromMEV ag now details
      else Inl (Error (''Unknown execution type: '' @ executionType ag)))"

record execution_task =
  exec_task_type :: string
  tradeDetails :: "execution_arg option"
  riskData :: "execution_arg option"
  bridgeData :: "execution_arg option"

definition or_empty :: "execution_arg option \<Rightarrow> execution_arg" where
  "or_empty x = (case x of None \<Rightarrow> \<lparr>exec_data = None\<rparr> | Some a \<Rightarrow> a)"

text \<open>The object of a \<open>case\<close> that ran to its \<open>return\<close>.\<close>

definition success_with :: "string \<Rightarrow> int \<Rightarrow> string \<Rightarrow> string \<Rightarrow> jsval \<Rightarrow> jsobject" where
  "success_with aid now ty field payload =
     [(''agentId'', JString aid),
      (''taskType'', JString ty),
      (''timestamp'', JNumber (Num (of_int now))),
      (''success'', JBool True),
      (field, payload)]"

definition ExecutionAgent_processTask ::
  "ExecutionAgent \<Rightarrow> int \<Rightarrow> execution_task \<Rightarrow> jsobject" where
  "ExecutionAgent_processTask ag now task =
     (if exec_task_type task = ''execute_trade'' then
        (case execute ag now (or_empty (tradeDetails task)) of
           Inr result \<Rightarrow> success_with (exec_id ag) now ''execution'' ''result'' (JObject result)
         | Inl e \<Rightarrow> failure (exec_id ag) now (exec_task_type task) e)
      else if exec_task_type task = ''manage_risk'' then
        (case manageRisk ag now (or_empty (riskData task)) of
           Inr riskResult \<Rightarrow>
             success_with (exec_id ag) now ''risk_management'' ''result'' (JObject riskResult)
         | Inl e \<Rightarrow> failure (exec_id ag) now (exec_task_type task) e)
      else if exec_task_type task = ''cross_chain_bridge'' then
        (case executeCrossChain ag now (or_empty (bridgeData task)) of
           Inr bridgeResult \<Rightarrow>
             success_with (exec_id ag) now ''cross_chain'' ''result'' (JObject bridgeResult)
         | Inl e \<Rightarrow> failure (exec_id ag) now (exec_task_type task) e)
      else unknown_task (exec_id ag) now (exec_task_type task))"

section \<open>The analyst agent\<close>







text \<open>What the specification asks of a \<open>Result\<close>: it has \<open>agentId\<close>, \<open>taskType\<close> and
  \<open>timestamp\<close>, its \<open>success\<close> is a boolean, and when \<open>success\<close> is false its \<open>error\<close>
  is a string.\<close>

fun is_string :: "jsval \<Rightarrow> bool" where
  "is_string (JString s) = True"
| "is_string v = False"

definition is_result :: "jsobject \<Rightarrow> bool" where
  "is_result r =
     (has_prop r ''agentId'' \<and> has_prop r ''taskType'' \<and> has_prop r ''timestamp''
      \<and> (get r ''success'' = JBool True
           \<or> get r ''success'' = JBool False \<and> is_string (get r ''error'')))"

section \<open>The orchestrator's prediction pipeline\<close>

text \<open>
  The collectors and analysts are any agents: each is the function that its
  \<open>processTask\<close> computes on a task object, a value or an exception. The deliberation and
  execution agents are the classes above. \<open>aggregateMarketData\<close> adds up properties of
  any type and is a parameter too.
\<close>

record SwarmOrchestrator =
  dataCollectors :: "(jsval \<Rightarrow> thrown + jsval) list"
  analysts :: "(jsval \<Rightarrow> thrown + jsval) list"
  deliberation :: "DeliberationAgent list"
  execution :: "ExecutionAgent list"
  aggregateMarketData :: "jsval list \<Rightarrow> thrown + jsval"

record market_task =
  market_task_id :: string
  market_task_type :: string
  market :: string

text \<open>One agent's share of a stage: a failure is caught and gives \<open>null\<close>.\<close>

definition or_null :: "thrown + jsval \<Rightarrow> jsval" where
  "or_null r = (case r of Inl e \<Rightarrow> JNull | Inr v \<Rightarrow> v)"

definition collectMarketData :: "SwarmOrchestrator \<Rightarrow> int \<Rightarrow> string \<Rightarrow> jsval list" where
  "collectMarketData orch now m =
     filter (\<lambda>result. result \<noteq> JNull)
       (map (\<lambda>agent. or_null (agent
               (JObject [(''type'', JString ''collect_data''),
                         (''data'', JObject [(''market'', JString m),
                                             (''timestamp'', JNumber (Num (of_int now)))])])))
          (dataCollectors orch))"

definition analyzeMarketData :: "SwarmOrchestrator \<Rightarrow> int \<Rightarrow> jsval list \<Rightarrow> jsval list" where
  "analyzeMarketData orch now dataCollection =
     filter (\<lambda>result. result \<noteq> JNull)
       (map (\<lambda>agent.
               (case aggregateMarketData orch dataCollection of
                  Inl e \<Rightarrow> JNull
                | Inr md \<Rightarrow>
                    or_null (agent
                      (JObject [(''type'', JString ''analyze_data''),
                                (''data'', JObject [(''dataCollection'', JArray dataCollection),
                                                    (''marketData'', md),
                                                    (''timestamp'', JNumber (Num (of_int now)))])]))))
          (analysts orch))"

text \<open>\<open>buildConsensus\<close> looks for the first deliberation agent of type
  \<open>facilitator\<close> and sends it a task of type \<open>build_consensus\<close>.\<close>

definition buildConsensus :: "SwarmOrchestrator \<Rightarrow> int \<Rightarrow> jsval list \<Rightarrow> thrown + jsobject" where
  "buildConsensus orch now analysisResults =
     (case find (\<lambda>agent. deliberationType agent = ''facilitator'') (deliberation orch) of
        None \<Rightarrow> Inl (Error ''No consensus facilitator available'')
      | Some facilitator \<Rightarrow>
          Inr (DeliberationAgent_processTask facilitator now
                 \<lparr>task_type = ''build_consensus'', proposals = None,
                  consensus_threshold = None, dispute = None,
                  task_data = JObject [(''predictions'', JArray analysisResults),
                                       (''threshold'', JNumber (Num (8/10))),
                                       (''timestamp'', JNumber (Num (of_int now)))]\<rparr>))"

text \<open>\<open>executeMarketDecision\<close> sends the risk manager a task of type \<open>assess_risk\<close>
  and then reads \<open>riskAssessment.recommendation.action\<close> for the log.\<close>

definition executeMarketDecision ::
  "SwarmOrchestrator \<Rightarrow> int \<Rightarrow> jsobject \<Rightarrow> market_task \<Rightarrow> thrown option" where
  "executeMarketDecision orch now consensus task =
     (case find (\<lambda>agent. executionType agent = ''risk_manager'') (execution orch) of
        None \<Rightarrow> None
      | Some riskManager \<Rightarrow>
          (let riskAssessment =
                 ExecutionAgent_processTask riskManager now
                   \<lparr>exec_task_type = ''assess_risk'', tradeDetails = None, riskData = None,
                    bridgeData = None\<rparr>
           in (case get riskAssessment ''recommendation'' of
                 JUndefined \<Rightarrow>
                   Some (TypeError ''Cannot read properties of undefined (reading action)'')
               | JNull \<Rightarrow> Some (TypeError ''Cannot read properties of null (reading action)'')
               | _ \<Rightarrow> None)))"

text \<open>The stages that a run of \<open>processMarketPredictionTask\<close> went through, in order,
  and the exception that ended it, if one did.\<close>

datatype stage =
    Collect "jsval list"
  | Analyze "jsval list"
  | Consensus jsobject
  | Execute jsobject

fun is_execute :: "stage \<Rightarrow> bool" where
  "is_execute (Execute c) = True"
| "is_execute s = False"

definition processMarketPredictionTask ::
  "SwarmOrchestrator \<Rightarrow> int \<Rightarrow> market_task \<Rightarrow> stage list \<times> thrown option" where
  "processMarketPredictionTask orch now task =
     (let dataCollection = collectMarketData orch now (market task);
          analysisResults = analyzeMarketData orch now dataCollection
      in (case buildConsensus orch now analysisResults of
            Inl e \<Rightarrow> ([Collect dataCollection, Analyze analysisResults], Some e)
          | Inr consensus \<Rightarrow>
              if truthy (get consensus ''hasConsensus'')
              then ([Collect dataCollection, Analyze analysisResults, Consensus consensus,
                     Execute consensus],
                    executeMarketDecision orch now consensus task)
              else ([Collect dataCollection, Analyze analysisResults, Consensus consensus],
                    None)))"

section \<open>The base agent: memory and health\<close>

datatype agent_status = Active | Inactive | Errored

record AgentMemory =
  mem_id :: string
  mem_type :: string
  mem_timestamp :: int
  mem_data :: jsval
  mem_metadata :: "jsval option"

text \<open>The argument of \<open>storeMemory\<close>, of type \<open>Omit<AgentMemory, 'id' | 'timestamp'>\<close>.\<close>

record memory_input =
  in_type :: string
  in_data :: jsval
  in_metadata :: "jsval option"

record BaseAgent =
  base_id :: string
  base_type :: string
  status :: agent_status
  startTime :: int
  lastActivityTime :: int
  tasksCompleted :: nat
  errorCount :: nat
  memory :: "AgentMemory list"
  maxMemorySize :: nat

text \<open>\<open>xs.slice(-n)\<close>: the last \<open>n\<close> elements, and the whole array for \<open>n = 0\<close>, since
  \<open>-0\<close> is \<open>0\<close>.\<close>

definition slice_last :: "nat \<Rightarrow> 'a list \<Rightarrow> 'a list" where
  "slice_last n xs = (if n = 0 then xs else drop (length xs - n) xs)"

text \<open>The entry that \<open>storeMemory\<close> builds. Its identifier is made of the agent's id, the
  time and a random suffix; the model takes it as the parameter \<open>new_id\<close>.\<close>

definition memoryItem :: "int \<Rightarrow> string \<Rightarrow> memory_input \<Rightarrow> AgentMemory" where
  "memoryItem now new_id m =
     \<lparr>mem_id = new_id, mem_type = in_type m, mem_timestamp = now, mem_data = in_data m,
      mem_metadata = in_metadata m\<rparr>"

text \<open>\<open>storeMemory\<close>, on the state of the agent. The copy that it then sends to the
  coordinator's database does not change the agent.\<close>

definition storeMemory :: "BaseAgent \<Rightarrow> int \<Rightarrow> string \<Rightarrow> memory_input \<Rightarrow> BaseAgent" where
  "storeMemory a now new_id m =
     (let pushed = memory a @ [memoryItem now new_id m]
      in a\<lparr>memory := (if maxMemorySize a < length pushed
                        then slice_last (maxMemorySize a) pushed else pushed)\<rparr>)"

text \<open>The comparator \<open>(a, b) => b.timestamp - a.timestamp\<close> orders by descending
  timestamp, and \<open>Array.prototype.sort\<close> is stable.\<close>

definition newest_first :: "AgentMemory list \<Rightarrow> AgentMemory list" where
  "newest_first ms = sort_key (\<lambda>m. - mem_timestamp m) ms"

text \<open>\<open>getMemoriesByType\<close> sorts the array that \<open>filter\<close> returns.\<close>

definition getMemoriesByType :: "BaseAgent \<Rightarrow> string \<Rightarrow> nat \<Rightarrow> AgentMemory list" where
  "getMemoriesByType a ty limit =
     take limit (newest_first (filter (\<lambda>m. mem_type m = ty) (memory a)))"

text \<open>\<open>getRecentMemories\<close> sorts \<open>this.memory\<close> itself: \<open>sort\<close> works in place, so the
  call returns its result and leaves the agent's memory sorted.\<close>

definition getRecentMemories :: "BaseAgent \<Rightarrow> nat \<Rightarrow> AgentMemory list \<times> BaseAgent" where
  "getRecentMemories a limit =
     (take limit (newest_first (memory a)), a\<lparr>memory := newest_first (memory a)\<rparr>)"

definition isHealthy :: "BaseAgent \<Rightarrow> int \<Rightarrow> bool" where
  "isHealthy a now = (status a = Active \<and> now - lastActivityTime a < 300000)"

text \<open>\<open>handleMessage\<close> of the base class records the activity.\<close>

definition handleMessage :: "BaseAgent \<Rightarrow> int \<Rightarrow> BaseAgent" where
  "handleMessage a now = a\<lparr>lastActivityTime := now\<rparr>"

section \<open>The coordinator\<close>

record AgentMessage =
  msg_id :: string
  fromAgentId :: string
  toAgentId :: string
  msg_type :: string
  msg_data :: jsval
  msg_timestamp :: int

record registration =
  reg_agentId :: string
  reg_type :: string
  reg_timestamp :: int
  reg_status :: string

text \<open>The database manager in its in-memory mode: it refuses every call while it is not
  connected, and keeps the last 1000 messages.\<close>

record DatabaseManager =
  connected :: bool
  agentData :: "(string \<times> registration) list"
  messageData :: "AgentMessage list"

text \<open>
  The coordinator's two \<open>Map\<close>s are lists of pairs in insertion order. \<open>Map.set\<close> is
  \<open>AList.update\<close>: it replaces the value of a key that is present, in place, and adds a
  key that is not at the end. \<open>Map.get\<close> is \<open>map_of\<close>. The field \<open>registry\<close> is the
  map \<open>agents\<close> of the class.
\<close>

record AgentCoordinator =
  registry :: "(string \<times> BaseAgent) list"
  messageQueues :: "(string \<times> AgentMessage list) list"
  dbManager :: "DatabaseManager option"

definition storeAgentRegistration ::
  "DatabaseManager \<Rightarrow> registration \<Rightarrow> thrown + DatabaseManager" where
  "storeAgentRegistration db info =
     (if \<not> connected db then Inl (Error ''Database not connected'')
      else Inr (db\<lparr>agentData := AList.update (reg_agentId info) info (agentData db)\<rparr>))"

definition storeMessage :: "DatabaseManager \<Rightarrow> AgentMessage \<Rightarrow> thrown + DatabaseManager" where
  "storeMessage db msg =
     (if \<not> connected db then Inl (Error ''Database not connected'')
      else Inr (db\<lparr>messageData :=
                  (let pushed = messageData db @ [msg]
                   in if 1000 < length pushed then slice_last 1000 pushed else pushed)\<rparr>))"

text \<open>\<open>registerAgent\<close> sets both maps and then writes the registration to the database,
  if there is one. The result is the coordinator afterwards and the exception that the
  database threw, if it did.\<close>

definition registerAgent ::
  "AgentCoordinator \<Rightarrow> int \<Rightarrow> BaseAgent \<Rightarrow> AgentCoordinator \<times> thrown option" where
  "registerAgent c now agent =
     (let c1 = c\<lparr>registry := AList.update (base_id agent) agent (registry c),
                 messageQueues := AList.update (base_id agent) [] (messageQueues c)\<rparr>
      in (case dbManager c1 of
            None \<Rightarrow> (c1, None)
          | Some db \<Rightarrow>
              (case storeAgentRegistration db
                      \<lparr>reg_agentId = base_id agent, reg_type = base_type agent,
                       reg_timestamp = now, reg_status = ''registered''\<rparr> of
                 Inl e \<Rightarrow> (c1, Some e)
               | Inr db' \<Rightarrow> (c1\<lparr>dbManager := Some db'\<rparr>, None))))"

text \<open>A message as \<open>sendMessage\<close> reads it: its \<open>type\<close>, and the whole of it as data.\<close>

record message =
  message_type :: "string option"
  message_body :: jsval

definition type_or_generic :: "string option \<Rightarrow> string" where
  "type_or_generic t =
     (case t of None \<Rightarrow> ''generic'' | Some s \<Rightarrow> if s = [] then ''generic'' else s)"

text \<open>\<open>sendMessage\<close>: the message goes to the recipient's queue if the recipient has
  one, the recipient's \<open>handleMessage\<close> runs if the recipient is registered, and the
  message is written to the database, if there is one. The identifier of the message is
  the parameter \<open>new_id\<close>.\<close>

definition sendMessage ::
  "AgentCoordinator \<Rightarrow> int \<Rightarrow> string \<Rightarrow> string \<Rightarrow> string \<Rightarrow> message
     \<Rightarrow> AgentCoordinator \<times> thrown option" where
  "sendMessage c now new_id sender recipient m =
     (let messageWithId =
            \<lparr>msg_id = new_id, fromAgentId = sender, toAgentId = recipient,
             msg_type = type_or_generic (message_type m), msg_data = message_body m,
             msg_timestamp = now\<rparr>;
          c1 = (case map_of (messageQueues c) recipient of
                  None \<Rightarrow> c
                | Some queue \<Rightarrow>
                    (let c' = c\<lparr>messageQueues :=
                                  AList.update recipient (queue @ [messageWithId])
                                    (messageQueues c)\<rparr>
                     in (case map_of (registry c') recipient of
                           None \<Rightarrow> c'
                         | Some a \<Rightarrow>
                             c'\<lparr>registry :=
                                  AList.update recipient (handleMessage a now) (registry c')\<rparr>)))
      in (case dbManager c1 of
            None \<Rightarrow> (c1, None)
          | Some db \<Rightarrow>
              (case storeMessage db messageWithId of
                 Inl e \<Rightarrow> (c1, Some e)
               | Inr db' \<Rightarrow> (c1\<lparr>dbManager := Some db'\<rparr>, None))))"

text \<open>\<open>healthCheck\<close> asks every registered agent and compares the ratio with 0.8.\<close>

definition healthyAgents :: "AgentCoordinator \<Rightarrow> int \<Rightarrow> nat" where
  "healthyAgents c now = length (filter (\<lambda>agent. isHealthy agent now) (map snd (registry c)))"

definition totalAgents :: "AgentCoordinator \<Rightarrow> nat" where
  "totalAgents c = length (registry c)"

definition healthRatio :: "AgentCoordinator \<Rightarrow> int \<Rightarrow> rat" where
  "healthRatio c now =
     (if 0 < totalAgents c then of_nat (healthyAgents c now) / of_nat (totalAgents c) else 0)"

definition healthCheck :: "AgentCoordinator \<Rightarrow> int \<Rightarrow> bool" where
  "healthCheck c now = (8/10 < healthRatio c now)"

section \<open>The specification's vocabulary\<close>

text \<open>Ranges of the specification's data model: a confidence lies in \<open>[0, 1]\<close>, of
  which the risk score needs the upper bound only, and a volatility is not negative. A
  missing value is in range: the code replaces it by its default.\<close>

definition at_most_one :: "rat option \<Rightarrow> bool" where
  "at_most_one x = (case x of None \<Rightarrow> True | Some c \<Rightarrow> c \<le> 1)"

definition not_negative :: "rat option \<Rightarrow> bool" where
  "not_negative x = (case x of None \<Rightarrow> True | Some v \<Rightarrow> 0 \<le> v)"

text \<open>The bonus of a source, and the bonus of an item's age in milliseconds.\<close>

definition source_bonus :: "string \<Rightarrow> jsnum" where
  "source_bonus s =
     (if s = ''onchain'' then lit (3/10) else if s = ''news'' then lit (2/10)
      else if s = ''social'' then lit (1/10) else Num 0)"

definition recency_bonus :: "int \<Rightarrow> int \<Rightarrow> jsnum" where
  "recency_bonus now t =
     (if now - t < 3600000 then lit (2/10) else if now - t < 86400000 then lit (1/10)
      else Num 0)"

text \<open>The last item of a source in the evidence, and whether its weight exceeds 0.8.\<close>

definition last_of_source :: "string \<Rightarrow> evidence list \<Rightarrow> evidence" where
  "last_of_source s items = last (filter (\<lambda>e. source e = s) items)"

definition strong_source :: "int \<Rightarrow> evidence list \<Rightarrow> string \<Rightarrow> bool" where
  "strong_source now items s =
     fl_gt (calculateEvidenceWeight now (last_of_source s items)) (lit (8/10))"

text \<open>The average severity of the conflicts on doubles: the severities are added from
  left to right, the sum rounded after every addition, and the last sum is divided by
  their number. There is none when there is no conflict or when a severity is \<open>NaN\<close>.\<close>

primrec running_sum :: "jsnum \<Rightarrow> jsnum list \<Rightarrow> jsnum" where
  "running_sum acc [] = acc"
| "running_sum acc (x # xs) = running_sum (fl_add acc x) xs"

definition mean_severity :: "conflict list \<Rightarrow> jsnum option" where
  "mean_severity cs =
     (if cs = [] \<or> list_ex (\<lambda>c. severity c = NaN) cs then None
      else Some (fl_div (running_sum (Num 0) (map severity cs)) (Num (of_nat (length cs)))))"

section \<open>Scenarios\<close>

text \<open>The deliberation agents as \<open>index.ts\<close> creates them, and a \<open>deliberate\<close> task
  with the predictions of Scenario A.\<close>

definition facilitator :: DeliberationAgent where
  "facilitator = \<lparr>agent_id = ''consensus-facilitator'', deliberationType = ''facilitator'',
                   role = ''consensus_building''\<rparr>"

definition deliberate_scenario_A :: deliberation_task where
  "deliberate_scenario_A =
     \<lparr>task_type = ''deliberate'', proposals = Some scenario_A,
      consensus_threshold = Some (8/10), dispute = None, task_data = JUndefined\<rparr>"

definition risk_manager :: ExecutionAgent where
  "risk_manager = \<lparr>exec_id = ''risk-manager'', executionType = ''risk_manager'',
                    exec_role = ''risk_assessment''\<rparr>"



text \<open>An orchestrator with no collector and no analyst, the facilitator and the risk
  manager.\<close>

definition small_swarm :: SwarmOrchestrator where
  "small_swarm =
     \<lparr>dataCollectors = [], analysts = [], deliberation = [facilitator],
      execution = [risk_manager], aggregateMarketData = (\<lambda>d. Inr (JObject []))\<rparr>"

definition btc_task :: market_task where
  "btc_task = \<lparr>market_task_id = ''prediction_1000'', market_task_type = ''market_prediction'',
                market = ''BTC/USD''\<rparr>"

text \<open>A prediction of which only the confidence matters.\<close>

definition confident :: "rat \<Rightarrow> prediction" where
  "confident c = \<lparr>agentId = ''consensus-facilitator'', prediction = None, confidence = Some c\<rparr>"

text \<open>Evidence: one item from the chain with the timestamp \<open>now\<close>; and two items from
  the chain, the first new, the second two days old.\<close>

definition fresh_onchain :: "int \<Rightarrow> evidence list" where
  "fresh_onchain now = [\<lparr>source = ''onchain'', timestamp = now\<rparr>]"

definition onchain_new_then_old :: "evidence list" where
  "onchain_new_then_old =
     [\<lparr>source = ''onchain'', timestamp = 200000000\<rparr>,
      \<lparr>source = ''onchain'', timestamp = 200000000 - 172800000\<rparr>]"

text \<open>Two analysts that disagree, far apart in confidence, and one news item an hour and
  a half old.\<close>

definition opposed :: "prediction list" where
  "opposed =
     [\<lparr>agentId = ''a1'', prediction = Some \<lparr>direction = Some Bullish, strength = None\<rparr>,
        confidence = Some (95/100)\<rparr>,
      \<lparr>agentId = ''a2'', prediction = Some \<lparr>direction = Some Bearish, strength = None\<rparr>,
        confidence = Some (5/100)\<rparr>]"

definition recent_news :: "evidence list" where
  "recent_news = [\<lparr>source = ''news'', timestamp = 200000000 - 5400000\<rparr>]"

text \<open>One bullish analyst at 0.9 and three bearish ones at 0.1.\<close>

definition one_against_three :: "prediction list" where
  "one_against_three =
     [\<lparr>agentId = ''a1'', prediction = Some \<lparr>direction = Some Bullish, strength = None\<rparr>,
        confidence = Some (9/10)\<rparr>,
      \<lparr>agentId = ''a2'', prediction = Some \<lparr>direction = Some Bearish, strength = None\<rparr>,
        confidence = Some (1/10)\<rparr>,
      \<lparr>agentId = ''a3'', prediction = Some \<lparr>direction = Some Bearish, strength = None\<rparr>,
        confidence = Some (1/10)\<rparr>,
      \<lparr>agentId = ''a4'', prediction = Some \<lparr>direction = Some Bearish, strength = None\<rparr>,
        confidence = Some (1/10)\<rparr>]"

text \<open>An agent with the given status and time of last activity, and coordinators with
  five agents of which four or five are healthy.\<close>

definition agent_at :: "string \<Rightarrow> agent_status \<Rightarrow> int \<Rightarrow> BaseAgent" where
  "agent_at i s t =
     \<lparr>base_id = i, base_type = ''sentiment'', status = s, startTime = 0, lastActivityTime = t,
      tasksCompleted = 0, errorCount = 0, memory = [], maxMemorySize = 1000\<rparr>"

definition four_of_five :: AgentCoordinator where
  "four_of_five =
     \<lparr>registry = [(''a1'', agent_at ''a1'' Active 1000), (''a2'', agent_at ''a2'' Active 1000),
                  (''a3'', agent_at ''a3'' Active 1000), (''a4'', agent_at ''a4'' Active 1000),
                  (''a5'', agent_at ''a5'' Errored 1000)],
      messageQueues = [(''a1'', []), (''a2'', []), (''a3'', []), (''a4'', []), (''a5'', [])],
      dbManager = None\<rparr>"

definition five_of_five :: AgentCoordinator where
  "five_of_five =
     \<lparr>registry = [(''a1'', agent_at ''a1'' Active 1000), (''a2'', agent_at ''a2'' Active 1000),
                  (''a3'', agent_at ''a3'' Active 1000), (''a4'', agent_at ''a4'' Active 1000),
                  (''a5'', agent_at ''a5'' Active 1000)],
      messageQueues = [(''a1'', []), (''a2'', []), (''a3'', []), (''a4'', []), (''a5'', [])],
      dbManager = None\<rparr>"

text \<open>Two agents register, and the first receives a message from the second.\<close>

definition empty_coordinator :: AgentCoordinator where
  "empty_coordinator = \<lparr>registry = [], messageQueues = [], dbManager = None\<rparr>"

definition busy_coordinator :: AgentCoordinator where
  "busy_coordinator =
     fst (sendMessage
            (fst (registerAgent
                    (fst (registerAgent empty_coordinator 1000 (agent_at ''a1'' Active 1000)))
                    1000 (agent_at ''a2'' Active 1000)))
            2000 ''msg_1'' ''a2'' ''a1''
            \<lparr>message_type = Some ''alert'', message_body = JString ''price moved''\<rparr>)"

text \<open>An agent with an empty memory and the given cap, and a memory to store.\<close>

definition fresh_agent :: "nat \<Rightarrow> BaseAgent" where
  "fresh_agent cap =
     \<lparr>base_id = ''twitter-sentiment'', base_type = ''sentiment'', status = Active,
      startTime = 0, lastActivityTime = 0, tasksCompleted = 0, errorCount = 0, memory = [],
      maxMemorySize = cap\<rparr>"

definition remember :: "string \<Rightarrow> memory_input" where
  "remember s = \<lparr>in_type = s, in_data = JString s, in_metadata = None\<rparr>"

text \<open>An agent with the default cap whose memory is full: 1000 entries with the
  timestamps 1 to 1000, in the order in which they were stored.\<close>

definition numbered :: "nat \<Rightarrow> AgentMemory" where
  "numbered i =
     \<lparr>mem_id = ''twitter-sentiment_entry'', mem_type = ''data_collection'',
      mem_timestamp = int i, mem_data = JNumber (Num (of_nat i)), mem_metadata = None\<rparr>"

definition full_agent :: BaseAgent where
  "full_agent = (fresh_agent 1000)\<lparr>memory := map numbered [1..<1001]\<rparr>"

section \<open>Properties of the doubles\<close>

subsection \<open>Powers of two\<close>

lemma two_to_powi: "two_to e = 2 powi e"
  by (simp add: two_to_def power_int_def power_inverse [symmetric] inverse_eq_divide
      power_one_over)

lemma two_to_pos [simp]: "0 < two_to e"
  by (simp add: two_to_powi)

lemma two_to_add: "two_to (a + b) = two_to a * two_to b"
  by (simp add: two_to_powi power_int_add)

lemma two_to_0 [simp]: "two_to 0 = 1"
  by (simp add: two_to_def)

lemma two_to_1 [simp]: "two_to 1 = 2"
  by (simp add: two_to_def)

lemma two_to_Suc: "two_to (e + 1) = 2 * two_to e"
  by (simp add: two_to_add)

lemma two_to_pred: "two_to (e - 1) = two_to e / 2"
  using two_to_Suc [of "e - 1"] by simp

lemma two_to_mono: "a \<le> b \<Longrightarrow> two_to a \<le> two_to b"
  by (simp add: two_to_powi power_int_increasing)

lemma two_to_strict: "a < b \<Longrightarrow> two_to a < two_to b"
  by (simp add: two_to_powi power_int_strict_increasing)

lemma two_to_nat: "two_to (int n) = 2 ^ n"
  by (simp add: two_to_def)

subsection \<open>Halving and doubling\<close>

lemma halvings_nonneg: "0 \<le> halvings n a"
  by (induction n arbitrary: a) simp_all

lemma halvings_le: "halvings n a \<le> int n"
  by (induction n arbitrary: a) (simp_all add: add.commute add_increasing2)

lemma halvings_lower: "1 \<le> a \<Longrightarrow> two_to (halvings n a) \<le> a"
proof (induction n arbitrary: a)
  case 0
  then show ?case by simp
next
  case (Suc n)
  show ?case
  proof (cases "a < 2")
    case True
    then show ?thesis using Suc.prems by simp
  next
    case False
    then have "1 \<le> a / 2" by simp
    from Suc.IH [OF this] have "2 * two_to (halvings n (a / 2)) \<le> a" by simp
    then show ?thesis using False by (simp add: two_to_add)
  qed
qed

lemma halvings_upper: "halvings n a < int n \<Longrightarrow> a < two_to (halvings n a + 1)"
proof (induction n arbitrary: a)
  case 0
  then show ?case by simp
next
  case (Suc n)
  show ?case
  proof (cases "a < 2")
    case True
    then show ?thesis by simp
  next
    case False
    define h where "h = halvings n (a / 2)"
    have "h < int n" using Suc.prems False by (simp add: h_def)
    then have "a / 2 < two_to (h + 1)" unfolding h_def by (rule Suc.IH)
    then have "a < 2 * two_to (h + 1)" by simp
    also have "\<dots> = two_to (1 + h + 1)" using two_to_Suc [of "h + 1"] by (simp add: ac_simps)
    finally show ?thesis using False by (simp add: h_def)
  qed
qed

lemma halvings_mono: "a \<le> b \<Longrightarrow> halvings n a \<le> halvings n b"
proof (induction n arbitrary: a b)
  case 0
  then show ?case by simp
next
  case (Suc n)
  have "halvings n (a / 2) \<le> halvings n (b / 2)"
    using Suc.prems by (intro Suc.IH) simp
  then show ?case using Suc.prems halvings_nonneg [of n "b / 2"] by auto
qed

lemma doublings_nonneg: "0 \<le> doublings n a"
  by (induction n arbitrary: a) simp_all

lemma doublings_le: "doublings n a \<le> int n"
  by (induction n arbitrary: a) (simp_all add: add.commute add_increasing2)

lemma doublings_ge_1: "1 \<le> a \<Longrightarrow> doublings n a = 0"
  by (cases n) simp_all

lemma doublings_upper: "a < 1 \<Longrightarrow> a < two_to (1 - doublings n a)"
proof (induction n arbitrary: a)
  case 0
  then show ?case by simp
next
  case (Suc n)
  show ?case
  proof (cases "2 * a < 1")
    case True
    define k where "k = doublings n (2 * a)"
    have "2 * a < two_to (1 - k)" unfolding k_def using True by (rule Suc.IH)
    also have "\<dots> = 2 * two_to (1 - (1 + k))" using two_to_Suc [of "1 - (1 + k)"] by simp
    finally have "a < two_to (1 - (1 + k))" by simp
    then show ?thesis using Suc.prems by (simp add: k_def)
  next
    case False
    then have "doublings n (2 * a) = 0" by (simp add: doublings_ge_1)
    then show ?thesis using Suc.prems by simp
  qed
qed

lemma doublings_lower: "0 < a \<Longrightarrow> doublings n a < int n \<Longrightarrow> two_to (- doublings n a) \<le> a"
proof (induction n arbitrary: a)
  case 0
  then show ?case by simp
next
  case (Suc n)
  show ?case
  proof (cases "1 \<le> a")
    case True
    then show ?thesis by simp
  next
    case False
    define k where "k = doublings n (2 * a)"
    have "k < int n" using Suc.prems False by (simp add: k_def)
    moreover have "0 < 2 * a" using Suc.prems by simp
    ultimately have "two_to (- k) \<le> 2 * a" unfolding k_def by (rule Suc.IH [rotated -1])
    moreover have "two_to (- k) = 2 * two_to (- (1 + k))"
      using two_to_Suc [of "- (1 + k)"] by simp
    ultimately have "two_to (- (1 + k)) \<le> a" by simp
    then show ?thesis using False by (simp add: k_def)
  qed
qed

lemma doublings_anti: "a \<le> b \<Longrightarrow> doublings n b \<le> doublings n a"
proof (induction n arbitrary: a b)
  case 0
  then show ?case by simp
next
  case (Suc n)
  have "doublings n (2 * b) \<le> doublings n (2 * a)"
    using Suc.prems by (intro Suc.IH) simp
  then show ?case using Suc.prems doublings_nonneg [of n "2 * a"] by auto
qed

subsection \<open>The exponent\<close>

lemma exponent_bounds: "- 1022 \<le> exponent a \<and> exponent a \<le> 1100"
  using halvings_le [of 1100 a] halvings_nonneg [of 1100 a]
    doublings_le [of 1022 a] doublings_nonneg [of 1022 a]
  by (simp add: exponent_def)

lemma exponent_mono: "a \<le> b \<Longrightarrow> exponent a \<le> exponent b"
  using halvings_mono [of a b 1100] doublings_anti [of a b 1022]
    halvings_nonneg [of 1100 b] doublings_nonneg [of 1022 a]
  by (auto simp add: exponent_def)

lemma exponent_upper: "exponent a < 1100 \<Longrightarrow> a < two_to (exponent a + 1)"
  using halvings_upper [of 1100 a] doublings_upper [of a 1022]
  by (auto simp add: exponent_def)

lemma exponent_lower: "0 < a \<Longrightarrow> - 1022 < exponent a \<Longrightarrow> two_to (exponent a) \<le> a"
  using halvings_lower [of a 1100] doublings_lower [of a 1022]
  by (auto simp add: exponent_def)

lemma exponent_eqI:
  assumes "two_to e \<le> a" and "a < two_to (e + 1)" and "- 1022 \<le> e" and "e < 1100"
  shows "exponent a = e"
proof -
  have pos: "0 < a" using assms(1) two_to_pos [of e] by linarith
  have "\<not> exponent a < e"
  proof
    assume l: "exponent a < e"
    then have "a < two_to (exponent a + 1)" using assms(4) by (intro exponent_upper) simp
    also have "\<dots> \<le> two_to e" using l by (intro two_to_mono) simp
    finally show False using assms(1) by simp
  qed
  moreover have "\<not> e < exponent a"
  proof
    assume g: "e < exponent a"
    then have "two_to (exponent a) \<le> a" using assms(3) pos by (intro exponent_lower) simp_all
    moreover have "two_to (e + 1) \<le> two_to (exponent a)" using g by (intro two_to_mono) simp
    ultimately show False using assms(2) by simp
  qed
  ultimately show ?thesis by simp
qed


lemma two_to_nonneg [simp]: "0 \<le> two_to e"
  using two_to_pos [of e] by (rule less_imp_le)

subsection \<open>Rounding to the nearest integer\<close>

lemma round_half_even_of_int [simp]: "round_half_even (of_int n) = n"
  by (simp add: round_half_even_def)

lemma round_half_even_floor:
  "round_half_even m = \<lfloor>m\<rfloor> \<or> round_half_even m = \<lfloor>m\<rfloor> + 1"
  by (simp add: round_half_even_def Let_def)

lemma round_half_even_mono: "m \<le> m' \<Longrightarrow> round_half_even m \<le> round_half_even m'"
proof -
  assume le: "m \<le> m'"
  then have f: "\<lfloor>m\<rfloor> \<le> \<lfloor>m'\<rfloor>" by (rule floor_mono)
  show ?thesis
  proof (cases "\<lfloor>m\<rfloor> = \<lfloor>m'\<rfloor>")
    case True
    then have "m - of_int \<lfloor>m\<rfloor> \<le> m' - of_int \<lfloor>m'\<rfloor>" using le by simp
    then show ?thesis using True by (auto simp add: round_half_even_def Let_def)
  next
    case False
    then have "\<lfloor>m\<rfloor> + 1 \<le> \<lfloor>m'\<rfloor>" using f by simp
    moreover have "round_half_even m \<le> \<lfloor>m\<rfloor> + 1"
      using round_half_even_floor [of m] by auto
    moreover have "\<lfloor>m'\<rfloor> \<le> round_half_even m'"
      using round_half_even_floor [of m'] by auto
    ultimately show ?thesis by linarith
  qed
qed

lemma round_half_even_le: "m \<le> of_int k \<Longrightarrow> round_half_even m \<le> k"
  using round_half_even_mono [of m "of_int k"] by simp

lemma round_half_even_ge: "of_int k \<le> m \<Longrightarrow> k \<le> round_half_even m"
  using round_half_even_mono [of "of_int k" m] by simp

text \<open>The integer nearest to \<open>m\<close>, and the even one of two that are equally near.\<close>

lemma round_half_even_eqI:
  assumes "\<bar>m - of_int n\<bar> < 1/2 \<or> (\<bar>m - of_int n\<bar> = 1/2 \<and> even n)"
  shows "round_half_even m = n"
proof -
  have fl: "\<lfloor>m\<rfloor> = n \<or> \<lfloor>m\<rfloor> = n - 1"
  proof -
    have "\<bar>m - of_int n\<bar> \<le> 1/2" using assms by auto
    then have "of_int n - 1 \<le> m" and "m < of_int n + 1" by linarith+
    then have "of_int (n - 1) \<le> m" and "m < of_int (n + 1)" by simp_all
    then have "n - 1 \<le> \<lfloor>m\<rfloor>" and "\<lfloor>m\<rfloor> < n + 1"
      by (simp_all only: le_floor_iff floor_less_iff)
    then show ?thesis by auto
  qed
  show ?thesis
  proof (cases "\<lfloor>m\<rfloor> = n")
    case True
    then show ?thesis using assms by (auto simp add: round_half_even_def Let_def)
  next
    case False
    then have p: "\<lfloor>m\<rfloor> = n - 1" using fl by simp
    then have d: "m - of_int \<lfloor>m\<rfloor> = m - of_int n + 1" by simp
    have o: "even n \<Longrightarrow> odd (n - 1)" by simp
    show ?thesis using assms o unfolding round_half_even_def Let_def d p
      by (auto simp add: abs_if split: if_splits)
  qed
qed

subsection \<open>Rounding a positive rational\<close>

lemma round_pos_nonneg: "0 \<le> a \<Longrightarrow> 0 \<le> round_pos a"
proof -
  assume "0 \<le> a"
  then have "of_int 0 \<le> a / two_to (exponent a - 52)"
    by (simp add: zero_le_divide_iff)
  then have "0 \<le> round_half_even (a / two_to (exponent a - 52))"
    by (rule round_half_even_ge)
  then show ?thesis by (simp add: round_pos_def)
qed

lemma two_to_53: "two_to (e + 1) = 2 ^ 53 * two_to (e - 52)"
proof -
  have "two_to 53 = 2 ^ 53" by (simp add: two_to_def)
  moreover have "two_to (53 + (e - 52)) = two_to (e + 1)" by (rule arg_cong) simp
  ultimately show ?thesis using two_to_add [of 53 "e - 52"] by simp
qed

lemma two_to_52: "two_to e = 2 ^ 52 * two_to (e - 52)"
proof -
  have "two_to 52 = 2 ^ 52" by (simp add: two_to_def)
  moreover have "two_to (52 + (e - 52)) = two_to e" by (rule arg_cong) simp
  ultimately show ?thesis using two_to_add [of 52 "e - 52"] by simp
qed

lemma round_pos_upper:
  assumes "a < two_to (exponent a + 1)"
  shows "round_pos a \<le> two_to (exponent a + 1)"
proof -
  let ?q = "two_to (exponent a - 52)"
  have "a / ?q \<le> 2 ^ 53" using assms by (simp add: two_to_53 [of "exponent a"] pos_divide_le_eq)
  then have "a / ?q \<le> of_int (2 ^ 53)" by simp
  then have "round_half_even (a / ?q) \<le> 2 ^ 53" by (rule round_half_even_le)
  then have "(of_int (round_half_even (a / ?q)) :: rat) \<le> of_int (2 ^ 53)"
    by (simp only: of_int_le_iff)
  then have "of_int (round_half_even (a / ?q)) * ?q \<le> 2 ^ 53 * ?q" by simp
  then show ?thesis by (simp add: round_pos_def two_to_53 [of "exponent a"])
qed

lemma round_pos_lower:
  assumes "two_to (exponent a) \<le> a"
  shows "two_to (exponent a) \<le> round_pos a"
proof -
  let ?q = "two_to (exponent a - 52)"
  have "2 ^ 52 \<le> a / ?q" using assms by (simp add: two_to_52 [of "exponent a"] pos_le_divide_eq)
  then have "of_int (2 ^ 52) \<le> a / ?q" by simp
  then have "2 ^ 52 \<le> round_half_even (a / ?q)" by (rule round_half_even_ge)
  then have "(of_int (2 ^ 52) :: rat) \<le> of_int (round_half_even (a / ?q))"
    by (simp only: of_int_le_iff)
  then have "2 ^ 52 * ?q \<le> of_int (round_half_even (a / ?q)) * ?q" by simp
  then show ?thesis by (simp add: round_pos_def two_to_52 [of "exponent a"])
qed

lemma round_pos_mono:
  assumes "0 < a" and "a \<le> b"
  shows "round_pos a \<le> round_pos b"
proof (cases "exponent a = exponent b")
  case True
  have "a / two_to (exponent b - 52) \<le> b / two_to (exponent b - 52)"
    using assms(2) by (simp add: divide_right_mono)
  then have "round_half_even (a / two_to (exponent b - 52))
      \<le> round_half_even (b / two_to (exponent b - 52))"
    by (rule round_half_even_mono)
  then have "(of_int (round_half_even (a / two_to (exponent b - 52))) :: rat)
      \<le> of_int (round_half_even (b / two_to (exponent b - 52)))"
    by (simp only: of_int_le_iff)
  then show ?thesis by (simp add: round_pos_def True)
next
  case False
  then have lt: "exponent a < exponent b" using exponent_mono [OF assms(2)] by simp
  have "exponent a < 1100" using lt exponent_bounds [of b] by simp
  then have "a < two_to (exponent a + 1)" by (rule exponent_upper)
  then have "round_pos a \<le> two_to (exponent a + 1)" by (rule round_pos_upper)
  also have "\<dots> \<le> two_to (exponent b)" using lt by (intro two_to_mono) simp
  also have "\<dots> \<le> round_pos b"
  proof -
    have "- 1022 < exponent b" using lt exponent_bounds [of a] by simp
    moreover have "0 < b" using assms by simp
    ultimately have "two_to (exponent b) \<le> b" by (intro exponent_lower)
    then show ?thesis by (rule round_pos_lower)
  qed
  finally show ?thesis .
qed

subsection \<open>Rounding to a double\<close>

lemma round64_mono: "x \<le> y \<Longrightarrow> fl_le (round64 x) (round64 y)"
proof -
  assume le: "x \<le> y"
  consider "0 < x" | "y < 0" | "x \<le> 0" "0 \<le> y" using le by linarith
  then show ?thesis
  proof cases
    case 1
    then have "round_pos x \<le> round_pos y" using le by (intro round_pos_mono)
    then show ?thesis using 1 le by (auto simp add: round64_def)
  next
    case 2
    then have "round_pos (- y) \<le> round_pos (- x)" using le by (intro round_pos_mono) simp_all
    then show ?thesis using 2 le by (auto simp add: round64_def)
  next
    case 3
    have "0 \<le> round_pos y" using 3 by (intro round_pos_nonneg)
    moreover have "0 \<le> round_pos (- x)" using 3 by (intro round_pos_nonneg) simp
    ultimately show ?thesis using 3 by (auto simp add: round64_def)
  qed
qed

text \<open>How a rounding is computed by hand: the exponent \<open>e\<close> with
  \<open>2^e \<le> x < 2^(e+1)\<close>, and the integer \<open>n\<close> nearest to \<open>x / 2^(e-52)\<close>.\<close>

lemma round_pos_eqI:
  assumes "two_to e \<le> x" and "x < two_to (e + 1)" and "- 1022 \<le> e" and "e < 1100"
    and "\<bar>x / two_to (e - 52) - of_int n\<bar> < 1/2
         \<or> (\<bar>x / two_to (e - 52) - of_int n\<bar> = 1/2 \<and> even n)"
  shows "round_pos x = of_int n * two_to (e - 52)"
proof -
  have "exponent x = e" using assms(1-4) by (rule exponent_eqI)
  moreover have "round_half_even (x / two_to (e - 52)) = n"
    using assms(5) by (rule round_half_even_eqI)
  ultimately show ?thesis by (simp add: round_pos_def)
qed

lemma round64_eqI:
  assumes "two_to e \<le> x" and "x < two_to (e + 1)" and "- 1022 \<le> e" and "e < 1024"
    and "\<bar>x / two_to (e - 52) - of_int n\<bar> < 1/2
         \<or> (\<bar>x / two_to (e - 52) - of_int n\<bar> = 1/2 \<and> even n)"
    and "of_int n * two_to (e - 52) < two_to 1024"
  shows "round64 x = Num (of_int n * two_to (e - 52))"
proof -
  have pos: "0 < x" using assms(1) two_to_pos [of e] by linarith
  have "round_pos x = of_int n * two_to (e - 52)"
    using assms(1-3) _ assms(5) by (rule round_pos_eqI) (use assms(4) in simp)
  then show ?thesis using pos assms(6) by (simp add: round64_def)
qed

lemma round64_minus: "round64 (- x) = fl_neg (round64 x)"
  by (simp add: round64_def)

lemma round64_0 [simp]: "round64 0 = Num 0"
  by (simp add: round64_def)

lemma round_pos_of_int:
  assumes "0 < k" and "k \<le> 2 ^ 53"
  shows "round_pos (of_int k) = of_int k"
proof -
  define a :: rat where "a = of_int k"
  define e where "e = exponent a"
  define q where "q = two_to (e - 52)"
  have q: "0 < q" by (simp add: q_def)
  have a1: "1 \<le> a" using assms(1) by (simp add: a_def)
  have a53: "a \<le> two_to 53"
  proof -
    have "(of_int k :: rat) \<le> of_int (2 ^ 53)" using assms(2) by (simp only: of_int_le_iff)
    then show ?thesis by (simp add: a_def two_to_def)
  qed
  have e0: "0 \<le> e" using a1 by (simp add: e_def exponent_def halvings_nonneg)
  have lo: "two_to e \<le> a"
    unfolding e_def using a1 e0 by (intro exponent_lower) (simp_all add: e_def)
  have e53: "e \<le> 53"
  proof (rule ccontr)
    assume "\<not> e \<le> 53"
    then have "two_to 53 < two_to e" by (intro two_to_strict) simp
    then show False using lo a53 by simp
  qed
  have "\<exists>j. a / q = of_int j"
  proof (cases "e \<le> 52")
    case True
    then have "q = 1 / 2 ^ nat (52 - e)"
      by (cases "e = 52") (simp_all add: q_def two_to_def)
    then have "a / q = of_int (k * 2 ^ nat (52 - e))" by (simp add: a_def)
    then show ?thesis by blast
  next
    case False
    then have e: "e = 53" using e53 by simp
    then have "a = two_to 53" using lo a53 by simp
    then have "a / q = of_int (2 ^ 52)" by (simp add: q_def e two_to_def)
    then show ?thesis by blast
  qed
  then obtain j where j: "a / q = of_int j" by blast
  have "round_pos a = of_int (round_half_even (a / q)) * q"
    by (simp add: round_pos_def e_def q_def)
  also have "\<dots> = a / q * q" by (simp add: j)
  also have "\<dots> = a" using q by simp
  finally show ?thesis by (simp add: a_def)
qed

text \<open>Integers up to \<open>2^53\<close> in magnitude are doubles.\<close>

lemma round64_of_int:
  assumes "\<bar>k\<bar> \<le> 2 ^ 53"
  shows "round64 (of_int k) = Num (of_int k)"
proof -
  have pos: "round64 (of_int j) = Num (of_int j)" if "0 < j" and "j \<le> 2 ^ 53" for j
  proof -
    have "(of_int j :: rat) \<le> of_int (2 ^ 53)" using that(2) by (simp only: of_int_le_iff)
    then have "(of_int j :: rat) < two_to 1024" by (simp add: two_to_def)
    then show ?thesis using that by (simp add: round64_def round_pos_of_int)
  qed
  consider "k = 0" | "0 < k" | "k < 0" by linarith
  then show ?thesis
  proof cases
    case 1
    then show ?thesis by simp
  next
    case 2
    then show ?thesis using assms by (intro pos) simp_all
  next
    case 3
    then have "round64 (of_int (- k)) = Num (of_int (- k))" using assms by (intro pos) simp_all
    then show ?thesis using round64_minus [of "of_int (- k)"] by simp
  qed
qed

subsection \<open>The nearest double\<close>

lemma round_half_even_near: "\<bar>m - of_int (round_half_even m)\<bar> \<le> 1/2"
proof -
  define f where "f = \<lfloor>m\<rfloor>"
  define d where "d = m - of_int f"
  have "of_int f \<le> m" and "m < of_int f + 1" unfolding f_def by linarith+
  then have d: "0 \<le> d" "d < 1" by (simp_all add: d_def)
  have m: "m = of_int f + d" by (simp add: d_def)
  have "round_half_even m
      = (if d < 1/2 then f else if 1/2 < d then f + 1 else if even f then f else f + 1)"
    unfolding round_half_even_def Let_def d_def f_def by (rule refl)
  then have "round_half_even m = f \<and> d \<le> 1/2 \<or> round_half_even m = f + 1 \<and> 1/2 \<le> d"
    by (auto split: if_splits)
  then show ?thesis
  proof
    assume "round_half_even m = f \<and> d \<le> 1/2"
    then show ?thesis using d by (simp add: m)
  next
    assume "round_half_even m = f + 1 \<and> 1/2 \<le> d"
    then show ?thesis using d by (simp add: m)
  qed
qed

lemma round_half_even_nearest: "\<bar>m - of_int (round_half_even m)\<bar> \<le> \<bar>m - of_int j\<bar>"
proof (cases "j = round_half_even m")
  case True
  then show ?thesis by simp
next
  case False
  then have "1 \<le> \<bar>j - round_half_even m\<bar>" by simp
  then have "(1 :: rat) \<le> of_int \<bar>j - round_half_even m\<bar>" by (simp only: of_int_1_le_iff)
  then have "1 \<le> \<bar>(of_int j :: rat) - of_int (round_half_even m)\<bar>" by simp
  then show ?thesis using round_half_even_near [of m] by linarith
qed

lemma round_pos_nearest_multiple:
  "\<bar>a - round_pos a\<bar> \<le> \<bar>a - of_int j * two_to (exponent a - 52)\<bar>"
proof -
  define q where "q = two_to (exponent a - 52)"
  have q: "0 < q" by (simp add: q_def)
  have s: "\<bar>a - of_int k * q\<bar> = \<bar>a / q - of_int k\<bar> * q" for k
  proof -
    have "\<bar>a / q - of_int k\<bar> * q = \<bar>(a / q - of_int k) * q\<bar>"
      using q by (simp add: abs_mult)
    also have "(a / q - of_int k) * q = a - of_int k * q"
      using q by (simp add: field_simps)
    finally show ?thesis by (rule sym)
  qed
  have "\<bar>a / q - of_int (round_half_even (a / q))\<bar> * q \<le> \<bar>a / q - of_int j\<bar> * q"
    using q round_half_even_nearest [of "a / q" j] by (intro mult_right_mono) simp_all
  then have "\<bar>a - of_int (round_half_even (a / q)) * q\<bar> \<le> \<bar>a - of_int j * q\<bar>"
    by (simp only: s)
  then show ?thesis unfolding round_pos_def q_def .
qed

lemma round_pos_nearest:
  assumes a: "0 < a" and e: "- 1022 \<le> e" and n: "\<bar>n\<bar> \<le> 2 ^ 53"
  shows "\<bar>a - round_pos a\<bar> \<le> \<bar>a - of_int n * two_to (e - 52)\<bar>"
proof (cases "exponent a \<le> e")
  case True
  define E where "E = exponent a"
  have "two_to (e - E + (E - 52)) = two_to (e - 52)" by (rule arg_cong) simp
  then have "two_to (e - 52) = two_to (e - E) * two_to (E - 52)"
    using two_to_add [of "e - E" "E - 52"] by simp
  moreover have "two_to (e - E) = of_int (2 ^ nat (e - E))"
    using True by (simp add: two_to_def E_def)
  ultimately have t: "two_to (e - 52) = of_int (2 ^ nat (e - E)) * two_to (E - 52)"
    by (simp only:)
  have eq: "of_int n * two_to (e - 52) = of_int (n * 2 ^ nat (e - E)) * two_to (E - 52)"
    unfolding t by (simp only: of_int_mult mult.assoc)
  show ?thesis unfolding eq E_def by (rule round_pos_nearest_multiple)
next
  case False
  define E where "E = exponent a"
  define d where "d = of_int n * two_to (e - 52)"
  have lt: "e < E" using False by (simp add: E_def)
  have low: "two_to E \<le> a"
    unfolding E_def using a e lt by (intro exponent_lower) (simp_all add: E_def)
  have "(of_int n :: rat) \<le> of_int (2 ^ 53)" using n by (simp only: of_int_le_iff)
  then have "d \<le> 2 ^ 53 * two_to (e - 52)" by (simp add: d_def)
  also have "\<dots> = two_to (e + 1)" by (simp add: two_to_53)
  also have "\<dots> \<le> two_to E" using lt by (intro two_to_mono) simp
  finally have d: "d \<le> two_to E" .
  have "\<bar>a - round_pos a\<bar> \<le> \<bar>a - of_int (2 ^ 52) * two_to (E - 52)\<bar>"
    unfolding E_def by (rule round_pos_nearest_multiple)
  also have "of_int (2 ^ 52) * two_to (E - 52) = two_to E"
    using two_to_52 [of E] by simp
  finally have "\<bar>a - round_pos a\<bar> \<le> \<bar>a - two_to E\<bar>" .
  then have "\<bar>a - round_pos a\<bar> \<le> \<bar>a - d\<bar>" using low d by linarith
  then show ?thesis by (simp only: d_def)
qed

text \<open>
  What \<open>round64\<close> returns is a double, the product of a mantissa of at most 53 bits and
  a power of two in the range of the format, and no double is nearer to the rational.
\<close>

lemma round64_nearest:
  assumes r: "round64 x = Num r" and e: "- 1022 \<le> e" and n: "\<bar>n\<bar> \<le> 2 ^ 53"
  shows "\<bar>x - r\<bar> \<le> \<bar>x - of_int n * two_to (e - 52)\<bar>"
proof -
  consider "x = 0" | "0 < x" | "x < 0" by linarith
  then show ?thesis
  proof cases
    case 1
    then show ?thesis using r by simp
  next
    case 2
    then have "r = round_pos x" using r by (simp add: round64_def split: if_splits)
    then show ?thesis using round_pos_nearest [OF 2 e n] by simp
  next
    case 3
    then have p: "0 < - x" by simp
    have "r = - round_pos (- x)" using r 3 by (simp add: round64_def split: if_splits)
    then have a: "\<bar>x - r\<bar> = \<bar>- x - round_pos (- x)\<bar>"
      using abs_minus [of "x + round_pos (- x)"] by simp
    have b: "\<bar>x - of_int n * two_to (e - 52)\<bar> = \<bar>- x - of_int (- n) * two_to (e - 52)\<bar>"
      using abs_minus [of "x - of_int n * two_to (e - 52)"] by simp
    have "\<bar>- n\<bar> \<le> 2 ^ 53" using n by simp
    then have "\<bar>- x - round_pos (- x)\<bar> \<le> \<bar>- x - of_int (- n) * two_to (e - 52)\<bar>"
      by (rule round_pos_nearest [OF p e])
    then show ?thesis by (simp only: a b)
  qed
qed

lemma round_pos_double:
  assumes a: "0 < a" and r: "round_pos a < two_to 1024"
  shows "\<exists>n e. - 1022 \<le> e \<and> e \<le> 1023 \<and> 0 \<le> n \<and> n \<le> 2 ^ 53
            \<and> round_pos a = of_int n * two_to (e - 52)"
proof -
  define E where "E = exponent a"
  define n where "n = round_half_even (a / two_to (E - 52))"
  have E: "- 1022 \<le> E" using exponent_bounds [of a] by (simp add: E_def)
  have up: "E \<le> 1023"
  proof (rule ccontr)
    assume "\<not> E \<le> 1023"
    then have big: "1024 \<le> E" by simp
    then have "two_to E \<le> a" unfolding E_def using a by (intro exponent_lower) (simp_all add: E_def)
    then have "two_to E \<le> round_pos a" unfolding E_def by (rule round_pos_lower)
    moreover have "two_to 1024 \<le> two_to E" using big by (rule two_to_mono)
    ultimately show False using r by simp
  qed
  have below: "a < two_to (E + 1)" unfolding E_def using up by (intro exponent_upper) (simp add: E_def)
  have "a / two_to (E - 52) \<le> of_int (2 ^ 53)"
    using below by (simp add: two_to_53 [of E] pos_divide_le_eq)
  then have n53: "n \<le> 2 ^ 53" unfolding n_def by (rule round_half_even_le)
  have "of_int 0 \<le> a / two_to (E - 52)" using a by (simp add: zero_le_divide_iff)
  then have n0: "0 \<le> n" unfolding n_def by (rule round_half_even_ge)
  have "round_pos a = of_int n * two_to (E - 52)" by (simp add: round_pos_def n_def E_def)
  then show ?thesis using E up n0 n53 by blast
qed

lemma round64_double:
  assumes "round64 x = Num r"
  shows "\<exists>n e. - 1022 \<le> e \<and> e \<le> 1023 \<and> \<bar>n\<bar> \<le> 2 ^ 53 \<and> r = of_int n * two_to (e - 52)"
proof -
  consider "x = 0" | "0 < x" | "x < 0" by linarith
  then show ?thesis
  proof cases
    case 1
    then have "r = of_int 0 * two_to (0 - 52)" using assms by simp
    then show ?thesis by (intro exI [of _ 0] exI [of _ "0 :: int"]) simp
  next
    case 2
    then have "r = round_pos x" and "round_pos x < two_to 1024"
      using assms by (simp_all add: round64_def split: if_splits)
    moreover obtain n e where "- 1022 \<le> e" "e \<le> 1023" "0 \<le> n" "n \<le> 2 ^ 53"
      "round_pos x = of_int n * two_to (e - 52)"
      using round_pos_double [OF 2 calculation(2)] by blast
    ultimately have "- 1022 \<le> e \<and> e \<le> 1023 \<and> \<bar>n\<bar> \<le> 2 ^ 53
        \<and> r = of_int n * two_to (e - 52)" by simp
    then show ?thesis by blast
  next
    case 3
    then have p: "0 < - x" by simp
    have "r = - round_pos (- x)" and "round_pos (- x) < two_to 1024"
      using assms 3 by (simp_all add: round64_def split: if_splits)
    moreover obtain n e where "- 1022 \<le> e" "e \<le> 1023" "0 \<le> n" "n \<le> 2 ^ 53"
      "round_pos (- x) = of_int n * two_to (e - 52)"
      using round_pos_double [OF p calculation(2)] by blast
    ultimately have "- 1022 \<le> e \<and> e \<le> 1023 \<and> \<bar>- n\<bar> \<le> 2 ^ 53
        \<and> r = of_int (- n) * two_to (e - 52)" by simp
    then show ?thesis by blast
  qed
qed

subsection \<open>Roundings of the numbers that the scenarios meet\<close>

text \<open>The literals of the source text. Each lemma gives the exponent \<open>e\<close> and the
  mantissa \<open>n\<close> of the result, and \<open>round64_eqI\<close> checks that \<open>n\<close> is the integer nearest
  to \<open>x / 2^(e - 52)\<close>.\<close>

lemma round64_half: "round64 (1/2) = Num (1/2)"
  using round64_eqI [where x = "1/2" and e = "- 1" and n = 4503599627370496]
  by (simp add: two_to_def)

lemma round64_tenth: "round64 (1/10) = Num (3602879701896397/36028797018963968)"
  using round64_eqI [where x = "1/10" and e = "- 4" and n = 7205759403792794]
  by (simp add: two_to_def)

lemma round64_fifth: "round64 (1/5) = Num (3602879701896397/18014398509481984)"
  using round64_eqI [where x = "1/5" and e = "- 3" and n = 7205759403792794]
  by (simp add: two_to_def)

lemma round64_three_tenths: "round64 (3/10) = Num (5404319552844595/18014398509481984)"
  using round64_eqI [where x = "3/10" and e = "- 2" and n = 5404319552844595]
  by (simp add: two_to_def)

lemma round64_two_fifths: "round64 (2/5) = Num (3602879701896397/9007199254740992)"
  using round64_eqI [where x = "2/5" and e = "- 2" and n = 7205759403792794]
  by (simp add: two_to_def)

lemma round64_seven_tenths: "round64 (7/10) = Num (3152519739159347/4503599627370496)"
  using round64_eqI [where x = "7/10" and e = "- 1" and n = 6305039478318694]
  by (simp add: two_to_def)

lemma round64_four_fifths: "round64 (4/5) = Num (3602879701896397/4503599627370496)"
  using round64_eqI [where x = "4/5" and e = "- 1" and n = 7205759403792794]
  by (simp add: two_to_def)

lemma round64_nine_tenths: "round64 (9/10) = Num (8106479329266893/9007199254740992)"
  using round64_eqI [where x = "9/10" and e = "- 1" and n = 8106479329266893]
  by (simp add: two_to_def)

lemma round64_1: "round64 1 = Num 1"
  using round64_eqI [where x = "1" and e = "0" and n = 4503599627370496]
  by (simp add: two_to_def)

text \<open>The exact sum of the doubles 0.1 and 0.2 rounds to \<open>0.30000000000000004\<close>.\<close>

lemma round64_tenth_plus_fifth: "round64 (10808639105689191/36028797018963968) = Num (1351079888211149/4503599627370496)"
  using round64_eqI [where x = "10808639105689191/36028797018963968" and e = "- 2" and n = 5404319552844596]
  by (simp add: two_to_def)

text \<open>The evidence weights: the base 0.5 plus the bonus of the source, then plus the
  bonus of the age.\<close>

lemma round64_base_onchain: "round64 (14411518807585587/18014398509481984) = Num (3602879701896397/4503599627370496)"
  using round64_eqI [where x = "14411518807585587/18014398509481984" and e = "- 1" and n = 7205759403792794]
  by (simp add: two_to_def)

lemma round64_base_news: "round64 (12610078956637389/18014398509481984) = Num (3152519739159347/4503599627370496)"
  using round64_eqI [where x = "12610078956637389/18014398509481984" and e = "- 1" and n = 6305039478318694]
  by (simp add: two_to_def)

lemma round64_base_social: "round64 (21617278211378381/36028797018963968) = Num (5404319552844595/9007199254740992)"
  using round64_eqI [where x = "21617278211378381/36028797018963968" and e = "- 1" and n = 5404319552844595]
  by (simp add: two_to_def)

lemma round64_onchain_hour: "round64 (18014398509481985/18014398509481984) = Num 1"
  using round64_eqI [where x = "18014398509481985/18014398509481984" and e = "0" and n = 4503599627370496]
  by (simp add: two_to_def)

lemma round64_onchain_day: "round64 (32425917317067573/36028797018963968) = Num (8106479329266893/9007199254740992)"
  using round64_eqI [where x = "32425917317067573/36028797018963968" and e = "- 1" and n = 8106479329266893]
  by (simp add: two_to_def)

lemma round64_onchain_old: "round64 (3602879701896397/4503599627370496) = Num (3602879701896397/4503599627370496)"
  using round64_eqI [where x = "3602879701896397/4503599627370496" and e = "- 1" and n = 7205759403792794]
  by (simp add: two_to_def)

lemma round64_news_hour: "round64 (16212958658533785/18014398509481984) = Num (2026619832316723/2251799813685248)"
  using round64_eqI [where x = "16212958658533785/18014398509481984" and e = "- 1" and n = 8106479329266892]
  by (simp add: two_to_def)

lemma round64_news_day: "round64 (28823037615171173/36028797018963968) = Num (7205759403792793/9007199254740992)"
  using round64_eqI [where x = "28823037615171173/36028797018963968" and e = "- 1" and n = 7205759403792793]
  by (simp add: two_to_def)

lemma round64_news_old: "round64 (3152519739159347/4503599627370496) = Num (3152519739159347/4503599627370496)"
  using round64_eqI [where x = "3152519739159347/4503599627370496" and e = "- 1" and n = 6305039478318694]
  by (simp add: two_to_def)

lemma round64_social_day: "round64 (25220157913274777/36028797018963968) = Num (3152519739159347/4503599627370496)"
  using round64_eqI [where x = "25220157913274777/36028797018963968" and e = "- 1" and n = 6305039478318694]
  by (simp add: two_to_def)

lemma round64_social_old: "round64 (5404319552844595/9007199254740992) = Num (5404319552844595/9007199254740992)"
  using round64_eqI [where x = "5404319552844595/9007199254740992" and e = "- 1" and n = 5404319552844595]
  by (simp add: two_to_def)

text \<open>The ages in milliseconds next to one hour and to 24 hours, and their quotients by
  the milliseconds of an hour.\<close>

lemma round64_hour_less_1: "round64 3599999 = Num 3599999"
  using round64_eqI [where x = "3599999" and e = "21" and n = 7730938985316352]
  by (simp add: two_to_def)

lemma round64_hour: "round64 3600000 = Num 3600000"
  using round64_eqI [where x = "3600000" and e = "21" and n = 7730941132800000]
  by (simp add: two_to_def)

lemma round64_below_1: "round64 (3599999/3600000) = Num (9007196752741199/9007199254740992)"
  using round64_eqI [where x = "3599999/3600000" and e = "- 1" and n = 9007196752741199]
  by (simp add: two_to_def)

lemma round64_day_less_1: "round64 86399999 = Num 86399999"
  using round64_eqI [where x = "86399999" and e = "26" and n = 5798205782491136]
  by (simp add: two_to_def)

lemma round64_day: "round64 86400000 = Num 86400000"
  using round64_eqI [where x = "86400000" and e = "26" and n = 5798205849600000]
  by (simp add: two_to_def)

lemma round64_below_24: "round64 (86399999/3600000) = Num (3377699681434125/140737488355328)"
  using round64_eqI [where x = "86399999/3600000" and e = "4" and n = 6755399362868250]
  by (simp add: two_to_def)

lemma round64_24: "round64 24 = Num 24"
  using round64_eqI [where x = "24" and e = "4" and n = 6755399441055744]
  by (simp add: two_to_def)

text \<open>The severities of the scenarios, \<open>0.95 - 0.05\<close> and \<open>0.9 - 0.1\<close>, and the
  running sum and the mean of three severities 0.8.\<close>

lemma round64_095: "round64 (19/20) = Num (4278419646001971/4503599627370496)"
  using round64_eqI [where x = "19/20" and e = "- 1" and n = 8556839292003942]
  by (simp add: two_to_def)

lemma round64_005: "round64 (1/20) = Num (3602879701896397/72057594037927936)"
  using round64_eqI [where x = "1/20" and e = "- 5" and n = 7205759403792794]
  by (simp add: two_to_def)

lemma round64_severity_opposed: "round64 (64851834634135139/72057594037927936) = Num (2026619832316723/2251799813685248)"
  using round64_eqI [where x = "64851834634135139/72057594037927936" and e = "- 1" and n = 8106479329266892]
  by (simp add: two_to_def)

lemma round64_severity_opposed_sum: "round64 (2026619832316723/2251799813685248) = Num (2026619832316723/2251799813685248)"
  using round64_eqI [where x = "2026619832316723/2251799813685248" and e = "- 1" and n = 8106479329266892]
  by (simp add: two_to_def)

lemma round64_severity_one_against_three: "round64 (28823037615171175/36028797018963968) = Num (3602879701896397/4503599627370496)"
  using round64_eqI [where x = "28823037615171175/36028797018963968" and e = "- 1" and n = 7205759403792794]
  by (simp add: two_to_def)

lemma round64_two_severities: "round64 (3602879701896397/2251799813685248) = Num (3602879701896397/2251799813685248)"
  using round64_eqI [where x = "3602879701896397/2251799813685248" and e = "0" and n = 7205759403792794]
  by (simp add: two_to_def)

lemma round64_three_severities: "round64 (10808639105689191/4503599627370496) = Num (1351079888211149/562949953421312)"
  using round64_eqI [where x = "10808639105689191/4503599627370496" and e = "1" and n = 5404319552844596]
  by (simp add: two_to_def)

lemma round64_mean_of_three: "round64 (1351079888211149/1688849860263936) = Num (7205759403792795/9007199254740992)"
  using round64_eqI [where x = "1351079888211149/1688849860263936" and e = "- 1" and n = 7205759403792795]
  by (simp add: two_to_def)

text \<open>The risk scores: for the confidence and the volatility of a scenario,
  \<open>1 - confidence\<close>, \<open>volatility / 0.5\<close>, their sum and half of it.\<close>

lemma round64_confidence_risk_scenario_C: "round64 (900719925474099/9007199254740992) = Num (900719925474099/9007199254740992)"
  using round64_eqI [where x = "900719925474099/9007199254740992" and e = "- 4" and n = 7205759403792792]
  by (simp add: two_to_def)

lemma round64_volatility_risk_scenario_C: "round64 (3602879701896397/18014398509481984) = Num (3602879701896397/18014398509481984)"
  using round64_eqI [where x = "3602879701896397/18014398509481984" and e = "- 3" and n = 7205759403792794]
  by (simp add: two_to_def)

lemma round64_risk_sum_scenario_C: "round64 (5404319552844595/18014398509481984) = Num (5404319552844595/18014398509481984)"
  using round64_eqI [where x = "5404319552844595/18014398509481984" and e = "- 2" and n = 5404319552844595]
  by (simp add: two_to_def)

lemma round64_risk_scenario_C: "round64 (5404319552844595/36028797018963968) = Num (5404319552844595/36028797018963968)"
  using round64_eqI [where x = "5404319552844595/36028797018963968" and e = "- 3" and n = 5404319552844595]
  by (simp add: two_to_def)

lemma round64_risk_sum_medium: "round64 (9907919180215091/9007199254740992) = Num (2476979795053773/2251799813685248)"
  using round64_eqI [where x = "9907919180215091/9007199254740992" and e = "0" and n = 4953959590107546]
  by (simp add: two_to_def)

lemma round64_risk_medium: "round64 (2476979795053773/4503599627370496) = Num (2476979795053773/4503599627370496)"
  using round64_eqI [where x = "2476979795053773/4503599627370496" and e = "- 1" and n = 4953959590107546]
  by (simp add: two_to_def)

lemma round64_volatility_high: "round64 (11/20) = Num (2476979795053773/4503599627370496)"
  using round64_eqI [where x = "11/20" and e = "- 1" and n = 4953959590107546]
  by (simp add: two_to_def)

lemma round64_confidence_risk_high: "round64 (1351079888211149/4503599627370496) = Num (1351079888211149/4503599627370496)"
  using round64_eqI [where x = "1351079888211149/4503599627370496" and e = "- 2" and n = 5404319552844596]
  by (simp add: two_to_def)

lemma round64_volatility_risk_high: "round64 (2476979795053773/2251799813685248) = Num (2476979795053773/2251799813685248)"
  using round64_eqI [where x = "2476979795053773/2251799813685248" and e = "0" and n = 4953959590107546]
  by (simp add: two_to_def)

lemma round64_risk_sum_high: "round64 (6305039478318695/4503599627370496) = Num (6305039478318695/4503599627370496)"
  using round64_eqI [where x = "6305039478318695/4503599627370496" and e = "0" and n = 6305039478318695]
  by (simp add: two_to_def)

lemma round64_risk_high: "round64 (6305039478318695/9007199254740992) = Num (6305039478318695/9007199254740992)"
  using round64_eqI [where x = "6305039478318695/9007199254740992" and e = "- 1" and n = 6305039478318695]
  by (simp add: two_to_def)

lemma round64_confidence_negative: "round64 2 = Num 2"
  using round64_eqI [where x = "2" and e = "1" and n = 4503599627370496]
  by (simp add: two_to_def)

lemma round64_volatility_negative: "round64 (1/4) = Num (1/4)"
  using round64_eqI [where x = "1/4" and e = "- 2" and n = 4503599627370496]
  by (simp add: two_to_def)

text \<open>The slippage risk of the amount 7000 at the default liquidity.\<close>

lemma round64_7000: "round64 7000 = Num 7000"
  using round64_eqI [where x = "7000" and e = "12" and n = 7696581394432000]
  by (simp add: two_to_def)

lemma round64_million: "round64 1000000 = Num 1000000"
  using round64_eqI [where x = "1000000" and e = "19" and n = 8589934592000000]
  by (simp add: two_to_def)

lemma round64_7000_per_million: "round64 (7/1000) = Num (8070450532247929/1152921504606846976)"
  using round64_eqI [where x = "7/1000" and e = "- 8" and n = 8070450532247929]
  by (simp add: two_to_def)

lemma round64_slippage_7000: "round64 (201761263306198225/288230376151711744) = Num (6305039478318695/9007199254740992)"
  using round64_eqI [where x = "201761263306198225/288230376151711744" and e = "- 1" and n = 6305039478318695]
  by (simp add: two_to_def)

lemmas roundings =
  round64_half round64_tenth round64_fifth round64_three_tenths round64_two_fifths
  round64_seven_tenths round64_four_fifths round64_nine_tenths round64_1
  round64_tenth_plus_fifth round64_base_onchain round64_base_news round64_base_social
  round64_onchain_hour round64_onchain_day round64_onchain_old round64_news_hour
  round64_news_day round64_news_old round64_social_day round64_social_old
  round64_hour_less_1 round64_hour round64_below_1 round64_day_less_1 round64_day
  round64_below_24 round64_24 round64_095 round64_005 round64_severity_opposed
  round64_severity_opposed_sum round64_severity_one_against_three round64_two_severities
  round64_three_severities round64_mean_of_three round64_confidence_risk_scenario_C
  round64_volatility_risk_scenario_C round64_risk_sum_scenario_C round64_risk_scenario_C
  round64_risk_sum_medium round64_risk_medium round64_volatility_high
  round64_confidence_risk_high round64_volatility_risk_high round64_risk_sum_high
  round64_risk_high round64_confidence_negative round64_volatility_negative round64_7000
  round64_million round64_7000_per_million round64_slippage_7000

text \<open>On doubles \<open>0.1 + 0.2\<close> exceeds \<open>0.3\<close>.\<close>

lemma tenth_plus_fifth:
  "fl_add (lit (1/10)) (lit (2/10)) = Num (1351079888211149/4503599627370496)
   \<and> fl_gt (fl_add (lit (1/10)) (lit (2/10))) (lit (3/10))"
  by (simp add: lit_def fl_gt_def fl_lt_def roundings)

subsection \<open>Order and signs\<close>

lemma round64_not_NaN [simp]: "round64 x \<noteq> NaN"
  by (simp add: round64_def)

lemma fl_le_NaN_right [simp]: "\<not> fl_le x NaN"
  by (cases x) simp_all

lemma fl_add_NaN_right [simp]: "fl_add x NaN = NaN"
  by (cases x) simp_all

lemma fl_div_NaN_right [simp]: "fl_div x NaN = NaN"
  by (cases x) simp_all

lemma round64_nonneg: "0 \<le> x \<Longrightarrow> fl_le (Num 0) (round64 x)"
  using round64_mono [of 0 x] by simp

lemma round64_le_1: "x \<le> 1 \<Longrightarrow> fl_le (round64 x) (Num 1)"
  using round64_mono [of x 1] by (simp add: round64_1)

lemma fl_sub_from_1_nonneg: "fl_le c (Num 1) \<Longrightarrow> fl_le (Num 0) (fl_sub (Num 1) c)"
  by (cases c) (simp_all add: fl_sub_def round64_nonneg)

lemma fl_div_nonneg: "fl_le (Num 0) x \<Longrightarrow> 0 < b \<Longrightarrow> fl_le (Num 0) (fl_div x (Num b))"
  by (cases x) (simp_all add: round64_nonneg)

lemma fl_add_nonneg:
  "fl_le (Num 0) x \<Longrightarrow> fl_le (Num 0) y \<Longrightarrow> fl_le (Num 0) (fl_add x y)"
  by (cases x; cases y) (simp_all add: round64_nonneg)

lemma fl_min_1_unit:
  "fl_le (Num 0) x \<Longrightarrow> \<exists>q. fl_min (Num 1) x = Num q \<and> 0 \<le> q \<and> q \<le> 1"
  by (cases x) (auto simp add: fl_min_def)

subsection \<open>The age of a timestamp\<close>

text \<open>Rounding is monotone, so the quotient of an age in milliseconds by the
  milliseconds of an hour is below \<open>k\<close> exactly when the age is below \<open>k\<close> hours, whatever
  the rounding of the difference and of the quotient.\<close>

lemma age_below:
  assumes d: "d \<le> m" and m: "round64 (of_int m) = Num (of_int m)"
    and q: "round64 (of_int m / c) = Num q" and c: "0 < c" and k: "q < k"
  shows "fl_lt (fl_div (round64 (of_int d)) (Num c)) (Num k)"
proof -
  have "fl_le (round64 (of_int d)) (Num (of_int m))"
    using round64_mono [of "of_int d" "of_int m"] d m by simp
  then consider x where "round64 (of_int d) = Num x" and "x \<le> of_int m"
    | "round64 (of_int d) = NegInf"
    by (cases "round64 (of_int d)") simp_all
  then show ?thesis
  proof cases
    case 1
    have "x / c \<le> of_int m / c" using 1(2) c by (simp add: divide_right_mono)
    then have "fl_le (round64 (x / c)) (Num q)"
      using round64_mono [of "x / c" "of_int m / c"] q by simp
    then show ?thesis using 1(1) c k
      by (cases "round64 (x / c)") (auto simp add: fl_lt_def)
  next
    case 2
    then show ?thesis using c by (simp add: fl_lt_def)
  qed
qed

lemma age_not_below:
  assumes d: "m \<le> d" and m: "round64 (of_int m) = Num (of_int m)"
    and q: "round64 (of_int m / c) = Num k" and c: "0 < c"
  shows "\<not> fl_lt (fl_div (round64 (of_int d)) (Num c)) (Num k)"
proof -
  have "fl_le (Num (of_int m)) (round64 (of_int d))"
    using round64_mono [of "of_int m" "of_int d"] d m by simp
  then consider x where "round64 (of_int d) = Num x" and "of_int m \<le> x"
    | "round64 (of_int d) = PosInf"
    by (cases "round64 (of_int d)") simp_all
  then show ?thesis
  proof cases
    case 1
    have "of_int m / c \<le> x / c" using 1(2) c by (simp add: divide_right_mono)
    then have "fl_le (Num k) (round64 (x / c))"
      using round64_mono [of "of_int m / c" "x / c"] q by simp
    then show ?thesis using 1(1) c
      by (cases "round64 (x / c)") (auto simp add: fl_lt_def)
  next
    case 2
    then show ?thesis using c by (simp add: fl_lt_def)
  qed
qed

lemma fl_sub_timestamps:
  "fl_sub (Num (of_int now)) (Num (of_int t)) = round64 (of_int (now - t))"
  by (simp add: fl_sub_def)

lemma age_lt_hour:
  "fl_lt (fl_div (fl_sub (Num (of_int now)) (Num (of_int t))) (Num (1000 * 60 * 60))) (Num 1)
     = (now - t < 3600000)"
proof (cases "now - t < 3600000")
  case True
  then have "now - t \<le> 3599999" by simp
  then have "fl_lt (fl_div (round64 (of_int (now - t))) (Num 3600000)) (Num 1)"
    by (rule age_below [where q = "9007196752741199/9007199254740992"])
      (simp_all add: roundings)
  then show ?thesis using True by (simp add: fl_sub_timestamps)
next
  case False
  then have "3600000 \<le> now - t" by simp
  then have "\<not> fl_lt (fl_div (round64 (of_int (now - t))) (Num 3600000)) (Num 1)"
    by (rule age_not_below) (simp_all add: roundings)
  then show ?thesis using False by (simp add: fl_sub_timestamps)
qed

lemma age_lt_day:
  "fl_lt (fl_div (fl_sub (Num (of_int now)) (Num (of_int t))) (Num (1000 * 60 * 60))) (Num 24)
     = (now - t < 86400000)"
proof (cases "now - t < 86400000")
  case True
  then have "now - t \<le> 86399999" by simp
  then have "fl_lt (fl_div (round64 (of_int (now - t))) (Num 3600000)) (Num 24)"
    by (rule age_below [where q = "3377699681434125/140737488355328"])
      (simp_all add: roundings)
  then show ?thesis using True by (simp add: fl_sub_timestamps)
next
  case False
  then have "86400000 \<le> now - t" by simp
  then have "\<not> fl_lt (fl_div (round64 (of_int (now - t))) (Num 3600000)) (Num 24)"
    by (rule age_not_below) (simp_all add: roundings)
  then show ?thesis using False by (simp add: fl_sub_timestamps)
qed


section \<open>Properties of the consensus calculation\<close>










section \<open>Properties of the deliberation agent's entry point\<close>

lemma deliberate_throws: "\<exists>e. deliberate ag now ps thr = Inl e"
  by (simp add: deliberate_def facilitateConsensus_def resolveDispute_def)

text \<open>Whatever the agent's type and whatever the task carries, a task of type
  \<open>deliberate\<close> ends in the \<open>catch\<close> branch: the result has \<open>success\<close> false and no
  \<open>result\<close>.\<close>

lemma deliberate_task_never_succeeds:
  "task_type task = ''deliberate'' \<Longrightarrow>
     get (DeliberationAgent_processTask ag now task) ''success'' = JBool False
     \<and> get (DeliberationAgent_processTask ag now task) ''result'' = JUndefined"
  using deliberate_throws [of ag now "case proposals task of None \<Rightarrow> [] | Some ps \<Rightarrow> ps"
      "js_or (consensus_threshold task) (8/10)"]
  by (auto simp add: DeliberationAgent_processTask_def failure_def get_def)

text \<open>
  Claim C2 says that \<open>processTask\<close> on a \<open>deliberate\<close> task with proposals and a
  threshold always returns a consensus record. The code does not: \<open>deliberate\<close> hands
  \<open>facilitateConsensus\<close> the object \<open>{ proposals, consensusThreshold }\<close>, and
  \<open>facilitateConsensus\<close> destructures the property \<open>data\<close> of its argument, which that
  object does not have. The exception is caught by \<open>processTask\<close>. On the facilitator and
  the predictions of Scenario A with threshold 0.8, the result is the failure object and
  holds no consensus record.
\<close>

theorem deliberate_task_returns_failure:
  "DeliberationAgent_processTask facilitator 1000 deliberate_scenario_A =
     [(''agentId'', JString ''consensus-facilitator''),
      (''taskType'', JString ''deliberate''),
      (''timestamp'', JNumber (Num 1000)),
      (''success'', JBool False),
      (''error'',
         JString ''Cannot destructure property predictions of task.data as it is undefined.'')]"
  by (simp add: DeliberationAgent_processTask_def deliberate_def facilitateConsensus_def
      facilitator_def deliberate_scenario_A_def failure_def)

section \<open>Properties of the prediction pipeline\<close>

lemma build_consensus_unknown:
  "task_type t = ''build_consensus'' \<Longrightarrow>
     DeliberationAgent_processTask ag now t = unknown_task (agent_id ag) now ''build_consensus''"
  by (simp add: DeliberationAgent_processTask_def)

lemma unknown_task_no_consensus:
  "get (unknown_task aid now ty) ''success'' = JBool False
   \<and> \<not> truthy (get (unknown_task aid now ty) ''hasConsensus'')"
  by (simp add: unknown_task_def get_def)

lemma buildConsensus_unknown:
  "buildConsensus orch now results = Inr c \<Longrightarrow>
     \<exists>f. find (\<lambda>agent. deliberationType agent = ''facilitator'') (deliberation orch) = Some f
         \<and> c = unknown_task (agent_id f) now ''build_consensus''"
  by (auto simp add: buildConsensus_def build_consensus_unknown split: option.splits)

text \<open>
  Claim C3. The deliberation agent answers a task of type \<open>build_consensus\<close> with the
  object of its \<open>default\<close> branch. That object is what \<open>buildConsensus\<close> returns to the
  orchestrator whenever it returns: its \<open>success\<close> is false and its \<open>hasConsensus\<close> is
  not truthy. So no run of \<open>processMarketPredictionTask\<close>, for any orchestrator, time and
  task, reaches \<open>executeMarketDecision\<close>.
\<close>

theorem market_prediction_never_executes:
  "(task_type t = ''build_consensus'' \<longrightarrow>
      DeliberationAgent_processTask ag now t = unknown_task (agent_id ag) now ''build_consensus'')
   \<and> (buildConsensus orch now results = Inr c \<longrightarrow>
        (\<exists>f. find (\<lambda>agent. deliberationType agent = ''facilitator'') (deliberation orch)
                = Some f
            \<and> c = unknown_task (agent_id f) now ''build_consensus'')
        \<and> get c ''success'' = JBool False
        \<and> \<not> truthy (get c ''hasConsensus''))
   \<and> \<not> list_ex is_execute (fst (processMarketPredictionTask orch now task))"
proof -
  have a: "task_type t = ''build_consensus'' \<longrightarrow>
      DeliberationAgent_processTask ag now t = unknown_task (agent_id ag) now ''build_consensus''"
    by (simp add: build_consensus_unknown)
  have b: "buildConsensus orch now results = Inr c \<longrightarrow>
        (\<exists>f. find (\<lambda>agent. deliberationType agent = ''facilitator'') (deliberation orch)
                = Some f
            \<and> c = unknown_task (agent_id f) now ''build_consensus'')
        \<and> get c ''success'' = JBool False
        \<and> \<not> truthy (get c ''hasConsensus'')"
    using buildConsensus_unknown [of orch now results c] unknown_task_no_consensus by auto
  have e: "\<not> list_ex is_execute (fst (processMarketPredictionTask orch now task))"
  proof (cases "buildConsensus orch now
      (analyzeMarketData orch now (collectMarketData orch now (market task)))")
    case (Inl e)
    then show ?thesis by (simp add: processMarketPredictionTask_def Let_def)
  next
    case (Inr c')
    then have "\<not> truthy (get c' ''hasConsensus'')"
      using buildConsensus_unknown [OF Inr] unknown_task_no_consensus by auto
    then show ?thesis using Inr by (simp add: processMarketPredictionTask_def Let_def)
  qed
  from a b e show ?thesis by blast
qed

text \<open>The theorem on the small swarm: the run stops after the consensus stage, with the
  facilitator's answer to a task type that it does not know.\<close>

theorem market_prediction_never_executes_witness:
  "buildConsensus small_swarm 1000 []
     = Inr (unknown_task ''consensus-facilitator'' 1000 ''build_consensus'')
   \<and> processMarketPredictionTask small_swarm 1000 btc_task
     = ([Collect [], Analyze [],
         Consensus (unknown_task ''consensus-facilitator'' 1000 ''build_consensus'')], None)
   \<and> \<not> list_ex is_execute (fst (processMarketPredictionTask small_swarm 1000 btc_task))"
proof -
  have b: "buildConsensus small_swarm 1000 []
      = Inr (unknown_task ''consensus-facilitator'' 1000 ''build_consensus'')"
    by (simp add: buildConsensus_def small_swarm_def facilitator_def
        DeliberationAgent_processTask_def)
  have n: "\<not> truthy (get (unknown_task ''consensus-facilitator'' 1000 ''build_consensus'')
      ''hasConsensus'')"
    using market_prediction_never_executes [where orch = small_swarm and now = 1000
        and results = "[]"
        and c = "unknown_task ''consensus-facilitator'' 1000 ''build_consensus''"] b
    by simp
  have c: "collectMarketData small_swarm 1000 (market btc_task) = []"
    by (simp add: collectMarketData_def small_swarm_def)
  have a: "analyzeMarketData small_swarm 1000 [] = []"
    by (simp add: analyzeMarketData_def small_swarm_def)
  have p: "processMarketPredictionTask small_swarm 1000 btc_task
     = ([Collect [], Analyze [],
         Consensus (unknown_task ''consensus-facilitator'' 1000 ''build_consensus'')], None)"
    using n by (simp add: processMarketPredictionTask_def Let_def c a b)
  show ?thesis
    using b p market_prediction_never_executes [where orch = small_swarm and now = 1000
        and task = btc_task]
    by simp
qed

section \<open>Properties of the agents' results\<close>

lemma is_result_failure: "is_result (failure aid now ty e)"
  by (cases e) (simp_all add: is_result_def failure_def has_prop_def get_def)

lemma is_result_unknown_task: "is_result (unknown_task aid now ty)"
  by (simp add: is_result_def unknown_task_def has_prop_def get_def)




text \<open>The deliberation agent's \<open>processTask\<close> has the same three shapes of result.\<close>

lemma is_result_DeliberationAgent: "is_result (DeliberationAgent_processTask ag now task)"
proof -
  have s: "is_result [(''agentId'', a), (''taskType'', b), (''timestamp'', c),
      (''success'', JBool True), (k, v)]" for a b c k v
    by (simp add: is_result_def has_prop_def get_def)
  show ?thesis
    by (simp add: DeliberationAgent_processTask_def is_result_failure is_result_unknown_task s
        split: sum.splits)
qed



section \<open>Properties of the coordinator's health check\<close>

text \<open>
  Claim C4 says that \<open>healthCheck\<close> returns true exactly when the ratio of healthy agents
  is at least 0.8. With five registered agents of which four are healthy the ratio is
  0.8, and \<open>healthCheck\<close> returns false: the code compares with \<open>>\<close>.
\<close>

theorem healthCheck_at_exactly_80_percent:
  "healthyAgents four_of_five 2000 = 4 \<and> totalAgents four_of_five = 5
   \<and> (8/10 :: rat) \<le> of_nat (healthyAgents four_of_five 2000) / of_nat (totalAgents four_of_five)
   \<and> healthCheck four_of_five 2000 = False"
  by (simp add: healthCheck_def healthRatio_def healthyAgents_def totalAgents_def
      four_of_five_def agent_at_def isHealthy_def)

text \<open>
  Claim C4, amended. For every registry and time, \<open>healthCheck\<close> returns true if and only
  if at least one agent is registered and the ratio of the registered agents whose
  \<open>isHealthy()\<close> holds (active, and less than five minutes since the last activity) to
  all registered agents is strictly greater than 0.8; that is, \<open>4 * total < 5 * healthy\<close>.
\<close>

theorem healthCheck_iff_above_80_percent:
  "healthCheck c now
     = (0 < totalAgents c
        \<and> 8/10 < (of_nat (healthyAgents c now) :: rat) / of_nat (totalAgents c))
   \<and> healthCheck c now = (4 * totalAgents c < 5 * healthyAgents c now)
   \<and> healthyAgents c now = length (filter (\<lambda>p. status (snd p) = Active
          \<and> now - lastActivityTime (snd p) < 300000) (registry c))"
proof -
  have a: "healthCheck c now
     = (0 < totalAgents c
        \<and> 8/10 < (of_nat (healthyAgents c now) :: rat) / of_nat (totalAgents c))"
    by (simp add: healthCheck_def healthRatio_def)
  have b: "healthCheck c now = (4 * totalAgents c < 5 * healthyAgents c now)"
  proof (cases "totalAgents c = 0")
    case True
    then have "healthyAgents c now = 0"
      by (simp add: totalAgents_def healthyAgents_def)
    with True show ?thesis by (simp add: healthCheck_def healthRatio_def)
  next
    case False
    then have p: "(0::rat) < of_nat (totalAgents c)" by simp
    have "(8/10 < (of_nat (healthyAgents c now) :: rat) / of_nat (totalAgents c))
        = ((4::rat) * of_nat (totalAgents c) < 5 * of_nat (healthyAgents c now))"
      using p by (simp add: field_simps)
    also have "\<dots> = (4 * totalAgents c < 5 * healthyAgents c now)"
      by (metis of_nat_less_iff of_nat_mult of_nat_numeral)
    finally show ?thesis using False by (simp add: healthCheck_def healthRatio_def)
  qed
  have d: "healthyAgents c now = length (filter (\<lambda>p. status (snd p) = Active
          \<and> now - lastActivityTime (snd p) < 300000) (registry c))"
    by (simp add: healthyAgents_def isHealthy_def filter_map comp_def)
  from a b d show ?thesis by blast
qed

text \<open>The theorem on five healthy agents of five.\<close>

theorem healthCheck_iff_above_80_percent_witness:
  "healthCheck five_of_five 2000 = True \<and> healthyAgents five_of_five 2000 = 5"
proof -
  have "healthyAgents five_of_five 2000 = 5 \<and> totalAgents five_of_five = 5"
    by (simp add: healthyAgents_def totalAgents_def five_of_five_def agent_at_def isHealthy_def)
  then show ?thesis using healthCheck_iff_above_80_percent [of five_of_five 2000] by simp
qed

section \<open>Properties of the risk manager\<close>

lemma lit_half: "lit (5/10) = Num (1/2)"
  by (simp add: lit_def roundings)

lemma fl_or_confidence_le_1: "at_most_one x \<Longrightarrow> fl_le (fl_or x (5/10)) (Num 1)"
  by (cases x) (simp_all add: fl_or_def at_most_one_def lit_def round64_le_1 roundings)

lemma fl_or_volatility_nonneg: "not_negative x \<Longrightarrow> fl_le (Num 0) (fl_or x (2/10))"
  by (cases x) (simp_all add: fl_or_def not_negative_def lit_def round64_nonneg roundings)

lemma risk_score_in_unit_interval:
  assumes "at_most_one c" and "not_negative v"
  shows "\<exists>q. fl_min (Num 1)
               (fl_div (fl_add (fl_sub (Num 1) (fl_or c (5/10)))
                               (fl_div (fl_or v (2/10)) (lit (5/10))))
                       (Num 2)) = Num q \<and> 0 \<le> q \<and> q \<le> 1"
proof -
  have "fl_le (Num 0) (fl_sub (Num 1) (fl_or c (5/10)))"
    using assms(1) by (intro fl_sub_from_1_nonneg fl_or_confidence_le_1)
  moreover have "fl_le (Num 0) (fl_div (fl_or v (2/10)) (lit (5/10)))"
    unfolding lit_half using assms(2) by (intro fl_div_nonneg fl_or_volatility_nonneg) simp_all
  ultimately have "fl_le (Num 0)
      (fl_div (fl_add (fl_sub (Num 1) (fl_or c (5/10)))
                      (fl_div (fl_or v (2/10)) (lit (5/10)))) (Num 2))"
    by (intro fl_div_nonneg fl_add_nonneg) simp_all
  then show ?thesis by (rule fl_min_1_unit)
qed

text \<open>
  Claim C7 says that the overall risk score always lies in \<open>[0, 1]\<close>. The score is capped
  at 1 and has no lower bound: \<open>prediction.confidence\<close> is any number, and with the
  confidence 2 and the volatility 0.25 the score is \<open>((1 - 2) + 0.25 / 0.5) / 2 = -0.25\<close>,
  every step exact on doubles.
\<close>

theorem risk_score_below_zero:
  "assessRisk (Some (confident 2)) (Some \<lparr>volatility = Some (25/100)\<rparr>) JUndefined
     = Inr \<lparr>overall = Num (- (25/100)), assessment_confidence = lit (8/10),
            riskLevel = ''low''\<rparr>"
  by (simp add: assessRisk_def Let_def risk_level_def confident_def fl_or_def lit_def
      fl_sub_def fl_min_def fl_gt_def fl_lt_def round64_minus roundings)

text \<open>
  Claim C7, amended. \<open>assessRisk\<close> computes on doubles: the score is the lesser of 1 and
  half the sum of \<open>1 - confidence\<close> and \<open>volatility / 0.5\<close>, each operation rounded, a
  missing or zero confidence counting as 0.5 and a missing or zero volatility as 0.2. The
  level is high when the score exceeds the double 0.7, medium when it exceeds the double
  0.4, and low otherwise. When the confidence is at most 1 and the volatility is not
  negative, the score lies in \<open>[0, 1]\<close>. \<open>generateRiskRecommendation\<close> maps high to
  \<open>reject\<close> with exposure 0, medium to \<open>proceed_with_caution\<close> with 0.5 and low to
  \<open>proceed\<close> with 0.8. With confidence 0.9 and volatility 0.1 the score is below 0.4
  and the recommendation is \<open>proceed\<close> with exposure 0.8.
\<close>

theorem risk_score_and_recommendation:
  "(\<exists>ra. assessRisk (Some p) (Some m) params = Inr ra
        \<and> overall ra = fl_min (Num 1)
                         (fl_div (fl_add (fl_sub (Num 1) (fl_or (confidence p) (5/10)))
                                         (fl_div (fl_or (volatility m) (2/10)) (lit (5/10))))
                                 (Num 2))
        \<and> riskLevel ra = (if fl_gt (overall ra) (lit (7/10)) then ''high''
                           else if fl_gt (overall ra) (lit (4/10)) then ''medium''
                           else ''low'')
        \<and> (at_most_one (confidence p) \<and> not_negative (volatility m)
              \<longrightarrow> (\<exists>q. overall ra = Num q \<and> 0 \<le> q \<and> q \<le> 1)))
     \<and> (riskLevel ra' = ''high''
          \<longrightarrow> generateRiskRecommendation ra' = \<lparr>action = ''reject'', maxExposure = Num 0\<rparr>)
     \<and> (riskLevel ra' = ''medium''
          \<longrightarrow> generateRiskRecommendation ra'
                = \<lparr>action = ''proceed_with_caution'', maxExposure = lit (5/10)\<rparr>)
     \<and> (riskLevel ra' = ''low''
          \<longrightarrow> generateRiskRecommendation ra'
                = \<lparr>action = ''proceed'', maxExposure = lit (8/10)\<rparr>)
     \<and> (\<exists>ra. assessRisk (Some (confident (9/10))) (Some \<lparr>volatility = Some (1/10)\<rparr>) params
                = Inr ra
          \<and> fl_lt (overall ra) (lit (4/10))
          \<and> generateRiskRecommendation ra
              = \<lparr>action = ''proceed'', maxExposure = lit (8/10)\<rparr>)"
proof -
  have score: "\<exists>ra. assessRisk (Some p) (Some m) params = Inr ra
        \<and> overall ra = fl_min (Num 1)
                         (fl_div (fl_add (fl_sub (Num 1) (fl_or (confidence p) (5/10)))
                                         (fl_div (fl_or (volatility m) (2/10)) (lit (5/10))))
                                 (Num 2))
        \<and> riskLevel ra = (if fl_gt (overall ra) (lit (7/10)) then ''high''
                           else if fl_gt (overall ra) (lit (4/10)) then ''medium''
                           else ''low'')
        \<and> (at_most_one (confidence p) \<and> not_negative (volatility m)
              \<longrightarrow> (\<exists>q. overall ra = Num q \<and> 0 \<le> q \<and> q \<le> 1))"
    using risk_score_in_unit_interval [of "confidence p" "volatility m"]
    by (simp add: assessRisk_def Let_def risk_level_def)
  have high: "riskLevel ra' = ''high''
        \<longrightarrow> generateRiskRecommendation ra' = \<lparr>action = ''reject'', maxExposure = Num 0\<rparr>"
    by (simp add: generateRiskRecommendation_def)
  have medium: "riskLevel ra' = ''medium''
        \<longrightarrow> generateRiskRecommendation ra'
              = \<lparr>action = ''proceed_with_caution'', maxExposure = lit (5/10)\<rparr>"
    by (simp add: generateRiskRecommendation_def)
  have low: "riskLevel ra' = ''low''
        \<longrightarrow> generateRiskRecommendation ra'
              = \<lparr>action = ''proceed'', maxExposure = lit (8/10)\<rparr>"
    by (simp add: generateRiskRecommendation_def)
  have scenario: "\<exists>ra. assessRisk (Some (confident (9/10))) (Some \<lparr>volatility = Some (1/10)\<rparr>)
                params = Inr ra
          \<and> fl_lt (overall ra) (lit (4/10))
          \<and> generateRiskRecommendation ra
              = \<lparr>action = ''proceed'', maxExposure = lit (8/10)\<rparr>"
    by (simp add: assessRisk_def Let_def risk_level_def confident_def fl_or_def lit_def
        fl_sub_def fl_min_def fl_gt_def fl_lt_def generateRiskRecommendation_def roundings)
  from score high medium low scenario show ?thesis by blast
qed

text \<open>The theorem at confidence 0.5 and volatility 0.3: the score is the double 0.55,
  in \<open>[0, 1]\<close>, and the level is medium.\<close>

theorem risk_score_and_recommendation_witness:
  "at_most_one (confidence (confident (5/10)))
   \<and> not_negative (volatility \<lparr>volatility = Some (3/10)\<rparr>)
   \<and> assessRisk (Some (confident (5/10))) (Some \<lparr>volatility = Some (3/10)\<rparr>) JUndefined
       = Inr \<lparr>overall = Num (2476979795053773/4503599627370496),
              assessment_confidence = lit (8/10), riskLevel = ''medium''\<rparr>
   \<and> generateRiskRecommendation
        \<lparr>overall = Num (2476979795053773/4503599627370496),
         assessment_confidence = lit (8/10), riskLevel = ''medium''\<rparr>
       = \<lparr>action = ''proceed_with_caution'', maxExposure = lit (5/10)\<rparr>"
proof -
  have c: "at_most_one (confidence (confident (5/10)))"
    by (simp add: at_most_one_def confident_def)
  have v: "not_negative (volatility \<lparr>volatility = Some (3/10)\<rparr>)"
    by (simp add: not_negative_def)
  have e: "assessRisk (Some (confident (5/10))) (Some \<lparr>volatility = Some (3/10)\<rparr>) JUndefined
       = Inr \<lparr>overall = Num (2476979795053773/4503599627370496),
              assessment_confidence = lit (8/10), riskLevel = ''medium''\<rparr>"
    by (simp add: assessRisk_def Let_def risk_level_def confident_def fl_or_def lit_def
        fl_sub_def fl_min_def fl_gt_def fl_lt_def roundings)
  have r: "generateRiskRecommendation
        \<lparr>overall = Num (2476979795053773/4503599627370496),
         assessment_confidence = lit (8/10), riskLevel = ''medium''\<rparr>
       = \<lparr>action = ''proceed_with_caution'', maxExposure = lit (5/10)\<rparr>"
    using risk_score_and_recommendation [where p = "confident (5/10)"
        and m = "\<lparr>volatility = Some (3/10)\<rparr>" and params = JUndefined
        and ra' = "\<lparr>overall = Num (2476979795053773/4503599627370496),
                     assessment_confidence = lit (8/10), riskLevel = ''medium''\<rparr>"]
    by simp
  from c v e r show ?thesis by blast
qed

text \<open>One rounding decides the level. With confidence 0.7 and volatility 0.55 the exact
  mean of \<open>0.3\<close> and \<open>1.1\<close> is \<open>0.7\<close>, which is not above 0.7; on doubles
  \<open>1 - 0.7\<close> is \<open>0.30000000000000004\<close>, the score is \<open>0.7000000000000001\<close>, the level
  is high and the recommendation is \<open>reject\<close>. Likewise \<open>assessMEVRisk\<close> for the amount 7000 and the default liquidity:
  \<open>7000 / 1000000 * 100\<close> is \<open>0.7000000000000001\<close>.\<close>

lemma risk_high_by_rounding:
  "assessRisk (Some (confident (7/10))) (Some \<lparr>volatility = Some (55/100)\<rparr>) JUndefined
     = Inr \<lparr>overall = Num (6305039478318695/9007199254740992),
            assessment_confidence = lit (8/10), riskLevel = ''high''\<rparr>
   \<and> generateRiskRecommendation
        \<lparr>overall = Num (6305039478318695/9007199254740992),
         assessment_confidence = lit (8/10), riskLevel = ''high''\<rparr>
       = \<lparr>action = ''reject'', maxExposure = Num 0\<rparr>"
  by (simp add: assessRisk_def Let_def risk_level_def confident_def fl_or_def lit_def
      fl_sub_def fl_min_def fl_gt_def fl_lt_def generateRiskRecommendation_def roundings)

text \<open>A confidence of zero is falsy and counts as 0.5: with the volatility 0.25 the
  score is \<open>((1 - 0.5) + 0.5) / 2 = 0.5\<close>, not \<open>((1 - 0) + 0.5) / 2 = 0.75\<close>.\<close>

lemma zero_confidence_counts_as_half:
  "assessRisk (Some (confident 0)) (Some \<lparr>volatility = Some (25/100)\<rparr>) JUndefined
     = Inr \<lparr>overall = Num (1/2), assessment_confidence = lit (8/10),
            riskLevel = ''medium''\<rparr>"
  by (simp add: assessRisk_def Let_def risk_level_def confident_def fl_or_def lit_def
      fl_sub_def fl_min_def fl_gt_def fl_lt_def roundings)

lemma mev_risk_high_by_rounding:
  "assessMEVRisk (Some \<lparr>trade_amount = Some 7000\<rparr>) (Some \<lparr>liquidity = None\<rparr>)
     = Inr \<lparr>mev_overall = Num (6305039478318695/9007199254740992),
            slippage = Num (6305039478318695/9007199254740992), mev_riskLevel = ''high''\<rparr>"
  by (simp add: assessMEVRisk_def Let_def risk_level_def fl_or_def lit_def
      fl_min_def fl_gt_def fl_lt_def roundings)

section \<open>Properties of the coordinator's registry\<close>

lemma busy_coordinator_eval:
  "busy_coordinator =
     \<lparr>registry = [(''a1'', agent_at ''a1'' Active 2000), (''a2'', agent_at ''a2'' Active 1000)],
      messageQueues =
        [(''a1'', [\<lparr>msg_id = ''msg_1'', fromAgentId = ''a2'', toAgentId = ''a1'',
                    msg_type = ''alert'', msg_data = JString ''price moved'',
                    msg_timestamp = 2000\<rparr>]),
         (''a2'', [])],
      dbManager = None\<rparr>"
  by (simp add: busy_coordinator_def sendMessage_def registerAgent_def empty_coordinator_def
      agent_at_def handleMessage_def type_or_generic_def Let_def)

lemma count_update:
  "distinct (map fst al) \<Longrightarrow> length (filter (\<lambda>p. fst p = k) (AList.update k v al)) = 1"
proof (induction al)
  case Nil
  show ?case by simp
next
  case (Cons p ps)
  have "filter (\<lambda>q. fst q = k) ps = []" if "fst p = k"
  proof -
    have "fst p \<notin> fst ` set ps" using Cons.prems by simp
    then have "\<forall>q \<in> set ps. fst q \<noteq> k" using that by blast
    then show ?thesis by (simp add: filter_empty_conv)
  qed
  then show ?case using Cons by (auto simp add: AList.update.simps)
qed

lemma registry_registerAgent:
  "registry (fst (registerAgent c now a)) = AList.update (base_id a) a (registry c)"
  by (simp add: registerAgent_def Let_def split: option.splits sum.splits)

lemma queues_registerAgent:
  "messageQueues (fst (registerAgent c now a)) = AList.update (base_id a) [] (messageQueues c)"
  by (simp add: registerAgent_def Let_def split: option.splits sum.splits)

text \<open>
  Claim C10. In a registry whose keys are distinct (a \<open>Map\<close>), after \<open>registerAgent(a)\<close>
  the registry maps the id of \<open>a\<close> to \<open>a\<close>, holds exactly one entry for that id and
  still has distinct keys, and the queue of that id is empty, whatever it held before;
  for every other id the registry entry and the queue are what they were. This holds
  whether or not the database write that follows succeeds.
\<close>

theorem registerAgent_upsert_resets_mailbox:
  "distinct (map fst (registry c)) \<Longrightarrow>
     map_of (registry (fst (registerAgent c now a))) (base_id a) = Some a
     \<and> length (filter (\<lambda>p. fst p = base_id a) (registry (fst (registerAgent c now a)))) = 1
     \<and> distinct (map fst (registry (fst (registerAgent c now a))))
     \<and> map_of (messageQueues (fst (registerAgent c now a))) (base_id a) = Some []
     \<and> (\<forall>k. k \<noteq> base_id a \<longrightarrow>
           map_of (registry (fst (registerAgent c now a))) k = map_of (registry c) k
           \<and> map_of (messageQueues (fst (registerAgent c now a))) k
               = map_of (messageQueues c) k)"
  by (simp add: registry_registerAgent queues_registerAgent update_conv' count_update
      distinct_update)

text \<open>The theorem on a coordinator where agent \<open>a1\<close> has a message waiting: registering
  \<open>a1\<close> again empties its queue, keeps two entries in the registry and leaves \<open>a2\<close> as
  it was.\<close>

theorem registerAgent_upsert_resets_mailbox_witness:
  "distinct (map fst (registry busy_coordinator))
   \<and> map_of (messageQueues busy_coordinator) ''a1'' \<noteq> Some []
   \<and> map_of (messageQueues (fst (registerAgent busy_coordinator 3000
         (agent_at ''a1'' Active 3000)))) ''a1'' = Some []
   \<and> length (registry (fst (registerAgent busy_coordinator 3000
         (agent_at ''a1'' Active 3000)))) = 2
   \<and> map_of (registry (fst (registerAgent busy_coordinator 3000
         (agent_at ''a1'' Active 3000)))) ''a2'' = Some (agent_at ''a2'' Active 1000)"
proof -
  have d: "distinct (map fst (registry busy_coordinator))"
    by (simp add: busy_coordinator_eval)
  have i: "base_id (agent_at ''a1'' Active 3000) = ''a1''"
    by (simp add: agent_at_def)
  have q: "map_of (messageQueues busy_coordinator) ''a1'' \<noteq> Some []"
    by (simp add: busy_coordinator_eval)
  have l: "length (registry (fst (registerAgent busy_coordinator 3000
      (agent_at ''a1'' Active 3000)))) = 2"
    by (simp add: registry_registerAgent busy_coordinator_eval i)
  have o: "map_of (registry busy_coordinator) ''a2'' = Some (agent_at ''a2'' Active 1000)"
    by (simp add: busy_coordinator_eval)
  show ?thesis
    using registerAgent_upsert_resets_mailbox [OF d, of 3000 "agent_at ''a1'' Active 3000"]
      d q l o
    by (simp add: i)
qed

section \<open>Properties of the dispute resolution\<close>

lemma weight_formula:
  "calculateEvidenceWeight now e
     = fl_min (Num 1)
         (fl_add (fl_add (lit (5/10)) (source_bonus (source e)))
            (recency_bonus now (timestamp e)))"
  unfolding calculateEvidenceWeight_def Let_def age_lt_hour age_lt_day
  by (simp add: source_bonus_def recency_bonus_def lit_def roundings)

text \<open>The weights that exceed the double 0.8: those of the chain within a day (\<open>1\<close> and
  \<open>0.9\<close>) and of the news within the hour (\<open>0.8999999999999999\<close>). The weight of the
  chain after a day and of a social item within the hour is the double 0.8 itself.\<close>

lemma strong_weight_iff:
  "fl_gt (calculateEvidenceWeight now e) (lit (8/10))
     = (source e = ''onchain'' \<and> now - timestamp e < 86400000
        \<or> source e = ''news'' \<and> now - timestamp e < 3600000)"
  unfolding weight_formula
  by (simp add: source_bonus_def recency_bonus_def lit_def fl_min_def fl_gt_def fl_lt_def
      roundings)

lemma map_of_weigh:
  "map_of (weigh now tbl x) s
     = (if source x = s then Some (calculateEvidenceWeight now x) else map_of tbl s)"
  by (simp add: weigh_def update_conv')

text \<open>The table of weights holds, for each source, the weight of the last item of
  that source.\<close>

lemma map_of_foldl_weigh:
  "map_of (foldl (weigh now) tbl items) s
     = (if filter (\<lambda>e. source e = s) items = [] then map_of tbl s
        else Some (calculateEvidenceWeight now (last (filter (\<lambda>e. source e = s) items))))"
proof (induction items arbitrary: tbl)
  case Nil
  show ?case by simp
next
  case (Cons x xs)
  show ?case
    by (simp add: Cons.IH map_of_weigh)
qed

lemma distinct_foldl_weigh:
  "distinct (map fst tbl) \<Longrightarrow> distinct (map fst (foldl (weigh now) tbl items))"
  by (induction items arbitrary: tbl) (simp_all add: weigh_def distinct_update)

lemma hasStrongEvidence_weigh_all:
  "list_ex (\<lambda>w. fl_gt w (lit (8/10))) (map snd (weigh_all now items))
     = (\<exists>s \<in> set (map source items). strong_source now items s)"
proof -
  let ?tbl = "weigh_all now items"
  have d: "distinct (map fst ?tbl)"
    by (simp add: weigh_all_def distinct_foldl_weigh)
  have m: "map_of ?tbl s
      = (if filter (\<lambda>e. source e = s) items = [] then None
         else Some (calculateEvidenceWeight now (last_of_source s items)))" for s
    by (simp add: weigh_all_def map_of_foldl_weigh last_of_source_def)
  have f: "(filter (\<lambda>e. source e = s) items = []) = (s \<notin> source ` set items)" for s
    by (auto simp add: filter_empty_conv)
  have "list_ex (\<lambda>w. fl_gt w (lit (8/10))) (map snd ?tbl)
      = (\<exists>s w. map_of ?tbl s = Some w \<and> fl_gt w (lit (8/10)))"
    using d by (force simp add: list_ex_iff map_of_eq_Some_iff)
  also have "\<dots> = (\<exists>s \<in> set (map source items). strong_source now items s)"
    by (auto simp add: m f strong_source_def split: if_splits)
  finally show ?thesis .
qed

lemma foldl_running_sum:
  "foldl (\<lambda>sum c. fl_add sum (severity c)) acc cs = running_sum acc (map severity cs)"
  by (induction cs arbitrary: acc) simp_all

lemma running_sum_NaN: "running_sum NaN xs = NaN"
  by (induction xs) simp_all

lemma running_sum_with_NaN: "NaN \<in> set xs \<Longrightarrow> running_sum acc xs = NaN"
  by (induction xs arbitrary: acc) (auto simp add: running_sum_NaN)

lemma list_ex_NaN:
  "list_ex (\<lambda>c. severity c = NaN) cs = (NaN \<in> set (map severity cs))"
  by (induction cs) auto

lemma requiresHumanReview_mean:
  "requiresHumanReview (makeResolutionDecision r)
     = (case mean_severity (conflicts r) of None \<Rightarrow> False
        | Some a \<Rightarrow> fl_gt a (lit (8/10)))"
proof -
  consider "conflicts r = []" | "conflicts r \<noteq> []" and "NaN \<in> set (map severity (conflicts r))"
    | "conflicts r \<noteq> []" and "NaN \<notin> set (map severity (conflicts r))"
    by blast
  then show ?thesis
  proof cases
    case 1
    then show ?thesis
      by (simp add: makeResolutionDecision_def conflictSeverity_def mean_severity_def
          fl_gt_def fl_lt_def)
  next
    case 2
    have "list_ex (\<lambda>c. severity c = NaN) (conflicts r)"
      using 2(2) by (simp only: list_ex_NaN)
    then show ?thesis
      using running_sum_with_NaN [OF 2(2), of "Num 0"]
      by (simp add: makeResolutionDecision_def conflictSeverity_def mean_severity_def
          foldl_running_sum fl_gt_def fl_lt_def)
  next
    case 3
    have "\<not> list_ex (\<lambda>c. severity c = NaN) (conflicts r)"
      using 3(2) by (simp only: list_ex_NaN not_False_eq_True)
    then show ?thesis
      using 3(1)
      by (simp add: makeResolutionDecision_def conflictSeverity_def mean_severity_def
          foldl_running_sum)
  qed
qed

text \<open>
  Claim C6 says that the decision is \<open>evidence_based\<close> if and only if the weight of some
  evidence item exceeds 0.8. The code keeps one weight per source, that of the last item
  of the source. With two opposed analysts and two items from the chain, the first new
  (weight 1) and the second two days old (weight 0.8), the table holds 0.8 for the source
  and the decision is \<open>majority_vote\<close>, although the weight of the first item exceeds
  0.8. The severity of the one conflict is \<open>0.95 - 0.05\<close> on doubles,
  \<open>0.8999999999999999\<close>.
\<close>

theorem strong_evidence_overwritten:
  "calculateEvidenceWeight 200000000 (hd onchain_new_then_old) = Num 1
   \<and> analyzeConflict 200000000 opposed onchain_new_then_old
       = Inr \<lparr>conflicts = [\<lparr>agents = [''a1'', ''a2''], kind = ''directional_conflict'',
                            severity = Num (2026619832316723/2251799813685248)\<rparr>],
              evidenceWeights = [(''onchain'', lit (8/10))], totalConflicts = 1,
              evidenceCount = 2\<rparr>
   \<and> outcome (makeResolutionDecision
        \<lparr>conflicts = [\<lparr>agents = [''a1'', ''a2''], kind = ''directional_conflict'',
                        severity = Num (2026619832316723/2251799813685248)\<rparr>],
         evidenceWeights = [(''onchain'', lit (8/10))], totalConflicts = 1,
         evidenceCount = 2\<rparr>)
       = ''majority_vote''"
  by (simp add: weight_formula source_bonus_def recency_bonus_def onchain_new_then_old_def
      opposed_def analyzeConflict_def weigh_all_def weigh_def makeResolutionDecision_def
      hasStrongEvidence_def to_number_def fl_sub_def fl_min_def fl_gt_def fl_lt_def lit_def
      roundings)

text \<open>
  Claim C6, amended. The weight of an evidence item is 0.5, plus 0.3 for the source
  \<open>onchain\<close>, 0.2 for \<open>news\<close> and 0.1 for \<open>social\<close>, plus 0.2 when the item is less
  than an hour old and otherwise 0.1 when it is less than 24 hours old, capped at 1, the
  sums taken on doubles; it exceeds 0.8 exactly for an item of the chain less than 24
  hours old and for a news item less than an hour old. When \<open>analyzeConflict\<close> returns
  (every prediction it compares has its \<open>prediction\<close>), the decision is
  \<open>evidence_based\<close> if and only if, for some source of the evidence, the weight of the
  last item of that source exceeds 0.8, and \<open>majority_vote\<close> otherwise;
  \<open>requiresHumanReview\<close> is set exactly when there is an average conflict severity on
  doubles (the running sum of the severities, rounded after every addition, divided by
  their number) and it exceeds the double 0.8. A single item from the chain with the
  timestamp \<open>now\<close> has weight 1 and gives \<open>evidence_based\<close>.
\<close>

theorem evidence_weight_and_resolution:
  "calculateEvidenceWeight now e
     = fl_min (Num 1)
         (fl_add (fl_add (lit (5/10)) (source_bonus (source e)))
            (recency_bonus now (timestamp e)))
   \<and> fl_gt (calculateEvidenceWeight now e) (lit (8/10))
       = (source e = ''onchain'' \<and> now - timestamp e < 86400000
          \<or> source e = ''news'' \<and> now - timestamp e < 3600000)
   \<and> (analyzeConflict now ps items = Inr r \<longrightarrow>
        (outcome (makeResolutionDecision r) = ''evidence_based'')
          = (\<exists>s \<in> set (map source items). strong_source now items s)
        \<and> (outcome (makeResolutionDecision r) = ''majority_vote'')
          = (\<not> (\<exists>s \<in> set (map source items). strong_source now items s))
        \<and> requiresHumanReview (makeResolutionDecision r)
          = (case mean_severity (conflicts r) of None \<Rightarrow> False
             | Some a \<Rightarrow> fl_gt a (lit (8/10))))
   \<and> calculateEvidenceWeight now (hd (fresh_onchain now)) = Num 1
   \<and> (\<exists>r. analyzeConflict now [] (fresh_onchain now) = Inr r
          \<and> outcome (makeResolutionDecision r) = ''evidence_based'')"
proof -
  have w: "calculateEvidenceWeight now e
     = fl_min (Num 1)
         (fl_add (fl_add (lit (5/10)) (source_bonus (source e)))
            (recency_bonus now (timestamp e)))"
    by (rule weight_formula)
  have x: "fl_gt (calculateEvidenceWeight now e) (lit (8/10))
       = (source e = ''onchain'' \<and> now - timestamp e < 86400000
          \<or> source e = ''news'' \<and> now - timestamp e < 3600000)"
    by (rule strong_weight_iff)
  have d: "analyzeConflict now ps items = Inr r \<longrightarrow>
        (outcome (makeResolutionDecision r) = ''evidence_based'')
          = (\<exists>s \<in> set (map source items). strong_source now items s)
        \<and> (outcome (makeResolutionDecision r) = ''majority_vote'')
          = (\<not> (\<exists>s \<in> set (map source items). strong_source now items s))
        \<and> requiresHumanReview (makeResolutionDecision r)
          = (case mean_severity (conflicts r) of None \<Rightarrow> False
             | Some a \<Rightarrow> fl_gt a (lit (8/10)))"
  proof
    assume a: "analyzeConflict now ps items = Inr r"
    then have e: "evidenceWeights r = weigh_all now items"
      by (auto simp add: analyzeConflict_def split: sum.splits)
    have s: "hasStrongEvidence r = (\<exists>s \<in> set (map source items). strong_source now items s)"
      unfolding hasStrongEvidence_def e by (rule hasStrongEvidence_weigh_all)
    show "(outcome (makeResolutionDecision r) = ''evidence_based'')
          = (\<exists>s \<in> set (map source items). strong_source now items s)
        \<and> (outcome (makeResolutionDecision r) = ''majority_vote'')
          = (\<not> (\<exists>s \<in> set (map source items). strong_source now items s))
        \<and> requiresHumanReview (makeResolutionDecision r)
          = (case mean_severity (conflicts r) of None \<Rightarrow> False
             | Some a \<Rightarrow> fl_gt a (lit (8/10)))"
      using requiresHumanReview_mean [of r] s by (simp add: makeResolutionDecision_def)
  qed
  have f: "calculateEvidenceWeight now (hd (fresh_onchain now)) = Num 1"
    by (simp add: weight_formula fresh_onchain_def source_bonus_def recency_bonus_def
        fl_min_def lit_def roundings)
  have g: "\<exists>r. analyzeConflict now [] (fresh_onchain now) = Inr r
          \<and> outcome (makeResolutionDecision r) = ''evidence_based''"
    using f by (simp add: analyzeConflict_def weigh_all_def weigh_def fresh_onchain_def
        makeResolutionDecision_def hasStrongEvidence_def fl_gt_def fl_lt_def lit_def roundings)
  from w x d f g show ?thesis by blast
qed

text \<open>The theorem on two opposed analysts with confidences 0.95 and 0.05 and one news
  item an hour and a half old: the weight is \<open>0.7999999999999999\<close> and does not exceed
  0.8, the decision is \<open>majority_vote\<close>; the one conflict has the severity
  \<open>0.8999999999999999\<close>, and human review is required.\<close>

theorem evidence_weight_and_resolution_witness:
  "analyzeConflict 200000000 opposed recent_news
     = Inr \<lparr>conflicts = [\<lparr>agents = [''a1'', ''a2''], kind = ''directional_conflict'',
                          severity = Num (2026619832316723/2251799813685248)\<rparr>],
            evidenceWeights = [(''news'', Num (7205759403792793/9007199254740992))],
            totalConflicts = 1, evidenceCount = 1\<rparr>
   \<and> outcome (makeResolutionDecision
        \<lparr>conflicts = [\<lparr>agents = [''a1'', ''a2''], kind = ''directional_conflict'',
                        severity = Num (2026619832316723/2251799813685248)\<rparr>],
         evidenceWeights = [(''news'', Num (7205759403792793/9007199254740992))],
         totalConflicts = 1, evidenceCount = 1\<rparr>)
       = ''majority_vote''
   \<and> requiresHumanReview (makeResolutionDecision
        \<lparr>conflicts = [\<lparr>agents = [''a1'', ''a2''], kind = ''directional_conflict'',
                        severity = Num (2026619832316723/2251799813685248)\<rparr>],
         evidenceWeights = [(''news'', Num (7205759403792793/9007199254740992))],
         totalConflicts = 1, evidenceCount = 1\<rparr>)
       = True"
proof -
  let ?r = "\<lparr>conflicts = [\<lparr>agents = [''a1'', ''a2''], kind = ''directional_conflict'',
                          severity = Num (2026619832316723/2251799813685248)\<rparr>],
            evidenceWeights = [(''news'', Num (7205759403792793/9007199254740992))],
            totalConflicts = 1, evidenceCount = 1\<rparr>"
  have a: "analyzeConflict 200000000 opposed recent_news = Inr ?r"
    by (simp add: analyzeConflict_def opposed_def recent_news_def weigh_all_def weigh_def
        weight_formula source_bonus_def recency_bonus_def to_number_def fl_sub_def fl_min_def
        lit_def roundings)
  have s: "\<not> (\<exists>s \<in> set (map source recent_news). strong_source 200000000 recent_news s)"
    using strong_weight_iff [where now = 200000000
        and e = "\<lparr>source = ''news'', timestamp = 200000000 - 5400000\<rparr>"]
    by (simp add: recent_news_def strong_source_def last_of_source_def)
  have m: "mean_severity (conflicts ?r) = Some (Num (2026619832316723/2251799813685248))"
    by (simp add: mean_severity_def roundings)
  have g: "fl_gt (Num (2026619832316723/2251799813685248)) (lit (8/10))"
    by (simp add: fl_gt_def fl_lt_def lit_def roundings)
  have "outcome (makeResolutionDecision ?r) = ''majority_vote''
      \<and> requiresHumanReview (makeResolutionDecision ?r) = True"
    using evidence_weight_and_resolution [where now = 200000000 and ps = opposed
        and items = recent_news and r = ?r] a s m g
    by simp
  with a show ?thesis by blast
qed

text \<open>The average is taken on doubles. One bullish analyst at 0.9 against three bearish
  ones at 0.1: each of the three conflicts has the severity \<open>0.9 - 0.1\<close>, the double
  0.8; their running sum is \<open>2.4000000000000004\<close>, the quotient by 3 is
  \<open>0.8000000000000002\<close>, and human review is required, although no severity exceeds
  0.8.\<close>

lemma review_by_rounding:
  "analyzeConflict 200000000 one_against_three []
     = Inr \<lparr>conflicts =
              [\<lparr>agents = [''a1'', ''a2''], kind = ''directional_conflict'', severity = lit (8/10)\<rparr>,
               \<lparr>agents = [''a1'', ''a3''], kind = ''directional_conflict'', severity = lit (8/10)\<rparr>,
               \<lparr>agents = [''a1'', ''a4''], kind = ''directional_conflict'', severity = lit (8/10)\<rparr>],
            evidenceWeights = [], totalConflicts = 3, evidenceCount = 0\<rparr>
   \<and> conflictSeverity
        \<lparr>conflicts =
           [\<lparr>agents = [''a1'', ''a2''], kind = ''directional_conflict'', severity = lit (8/10)\<rparr>,
            \<lparr>agents = [''a1'', ''a3''], kind = ''directional_conflict'', severity = lit (8/10)\<rparr>,
            \<lparr>agents = [''a1'', ''a4''], kind = ''directional_conflict'', severity = lit (8/10)\<rparr>],
         evidenceWeights = [], totalConflicts = 3, evidenceCount = 0\<rparr>
       = Num (7205759403792795/9007199254740992)
   \<and> requiresHumanReview (makeResolutionDecision
        \<lparr>conflicts =
           [\<lparr>agents = [''a1'', ''a2''], kind = ''directional_conflict'', severity = lit (8/10)\<rparr>,
            \<lparr>agents = [''a1'', ''a3''], kind = ''directional_conflict'', severity = lit (8/10)\<rparr>,
            \<lparr>agents = [''a1'', ''a4''], kind = ''directional_conflict'', severity = lit (8/10)\<rparr>],
         evidenceWeights = [], totalConflicts = 3, evidenceCount = 0\<rparr>)"
  by (simp add: analyzeConflict_def one_against_three_def weigh_all_def
      makeResolutionDecision_def conflictSeverity_def to_number_def fl_sub_def
      fl_gt_def fl_lt_def lit_def roundings)

section \<open>Properties of the agent's memory\<close>

lemma foldr_insort_key_least:
  "\<forall>y \<in> set ys. f x < f y \<Longrightarrow>
     foldr (insort_key f) ys (x # zs) = x # foldr (insort_key f) ys zs"
  by (induction ys) (auto simp add: not_le)

lemma sort_key_snoc_least:
  "\<forall>y \<in> set ys. f x < f y \<Longrightarrow> sort_key f (ys @ [x]) = x # sort_key f ys"
  by (simp add: sort_key_def foldr_insort_key_least)

lemma slice_last_snoc:
  "\<exists>ys. slice_last n (xs @ [x]) = ys @ [x] \<and> set ys \<subseteq> set xs"
proof (cases "n = 0")
  case True
  then show ?thesis by (simp add: slice_last_def)
next
  case False
  then have "drop (length (xs @ [x]) - n) (xs @ [x]) = drop (Suc (length xs) - n) xs @ [x]"
    by simp
  moreover have "set (drop (Suc (length xs) - n) xs) \<subseteq> set xs"
    by (rule set_drop_subset)
  ultimately show ?thesis using False by (simp add: slice_last_def)
qed

text \<open>Whatever the cap, the entry just stored is the last of the memory, after entries
  that were there before.\<close>

lemma memory_storeMemory_snoc:
  "\<exists>ys. memory (storeMemory a now nid inp) = ys @ [memoryItem now nid inp]
        \<and> set ys \<subseteq> set (memory a)"
  using slice_last_snoc [of "maxMemorySize a" "memory a" "memoryItem now nid inp"]
  by (auto simp add: storeMemory_def Let_def)

text \<open>\<open>newest_first\<close> is the stable sort by descending timestamp: its result is in
  that order, has the elements of the array, and keeps entries of equal timestamp in the
  order of the array.\<close>

lemma newest_first_stable:
  "sorted (map (\<lambda>m. - mem_timestamp m) (newest_first ms))
   \<and> set (newest_first ms) = set ms
   \<and> length (newest_first ms) = length ms
   \<and> filter (\<lambda>m. - mem_timestamp m = k) (newest_first ms)
       = filter (\<lambda>m. - mem_timestamp m = k) ms"
  by (simp add: newest_first_def sort_key_stable)

text \<open>
  Claim C8 says that, in every state of the agent, \<open>getRecentMemories(1)\<close> right after
  \<open>storeMemory\<close> returns the entry just stored. Two entries stored in the same
  millisecond have the same timestamp; the sort is stable, and the call returns the first
  of them, not the entry just stored.
\<close>

theorem same_millisecond_returns_older:
  "fst (getRecentMemories
          (storeMemory (storeMemory (fresh_agent 1000) 100 ''id_1'' (remember ''first''))
             100 ''id_2'' (remember ''second'')) 1)
     = [\<lparr>mem_id = ''id_1'', mem_type = ''first'', mem_timestamp = 100,
         mem_data = JString ''first'', mem_metadata = None\<rparr>]"
  by (simp add: getRecentMemories_def storeMemory_def fresh_agent_def remember_def
      memoryItem_def newest_first_def Let_def)

text \<open>
  Claim C8, amended. In every state of the agent in which every entry of the memory has
  a timestamp earlier than the time of the call, \<open>getRecentMemories(1)\<close> right after
  \<open>storeMemory\<close> returns exactly one entry, the entry just stored, with the type and the
  data that were given to \<open>storeMemory\<close>.
\<close>

theorem store_then_recent_roundtrip:
  "\<forall>m \<in> set (memory a). mem_timestamp m < now \<Longrightarrow>
     fst (getRecentMemories (storeMemory a now nid inp) 1) = [memoryItem now nid inp]
     \<and> mem_type (memoryItem now nid inp) = in_type inp
     \<and> mem_data (memoryItem now nid inp) = in_data inp"
proof -
  assume older: "\<forall>m \<in> set (memory a). mem_timestamp m < now"
  obtain ys where ys: "memory (storeMemory a now nid inp) = ys @ [memoryItem now nid inp]"
    and sub: "set ys \<subseteq> set (memory a)"
    using memory_storeMemory_snoc by blast
  have "\<forall>y \<in> set ys. - mem_timestamp (memoryItem now nid inp) < - mem_timestamp y"
    using older sub by (auto simp add: memoryItem_def)
  then have "newest_first (ys @ [memoryItem now nid inp])
      = memoryItem now nid inp # newest_first ys"
    unfolding newest_first_def by (rule sort_key_snoc_least)
  then show ?thesis
    by (simp add: getRecentMemories_def ys memoryItem_def)
qed

text \<open>The theorem on two entries stored one millisecond apart.\<close>

theorem store_then_recent_roundtrip_witness:
  "fst (getRecentMemories
          (storeMemory (storeMemory (fresh_agent 1000) 100 ''id_1'' (remember ''first''))
             101 ''id_2'' (remember ''second'')) 1)
     = [\<lparr>mem_id = ''id_2'', mem_type = ''second'', mem_timestamp = 101,
         mem_data = JString ''second'', mem_metadata = None\<rparr>]"
proof -
  have m: "memory (storeMemory (fresh_agent 1000) 100 ''id_1'' (remember ''first''))
      = [memoryItem 100 ''id_1'' (remember ''first'')]"
    by (simp add: storeMemory_def fresh_agent_def Let_def)
  have "\<forall>m \<in> set (memory (storeMemory (fresh_agent 1000) 100 ''id_1'' (remember ''first''))).
      mem_timestamp m < 101"
    by (simp add: m memoryItem_def)
  from store_then_recent_roundtrip [OF this, of "''id_2''" "remember ''second''"]
  show ?thesis by (simp add: memoryItem_def remember_def)
qed

text \<open>With a cap of at least one, the memory holds at most the cap after
  \<open>storeMemory\<close>, and it holds the last entries of the array with the new entry at the
  end, none of them changed.\<close>

lemma storeMemory_bounded:
  "0 < maxMemorySize a \<Longrightarrow> length (memory (storeMemory a now nid inp)) \<le> maxMemorySize a"
  by (auto simp add: storeMemory_def slice_last_def Let_def)

lemma storeMemory_keeps_last:
  "0 < maxMemorySize a \<Longrightarrow>
     memory (storeMemory a now nid inp)
       = drop (Suc (length (memory a)) - maxMemorySize a) (memory a @ [memoryItem now nid inp])"
  by (auto simp add: storeMemory_def slice_last_def Let_def)

text \<open>With a cap of zero nothing is ever evicted: \<open>slice(-0)\<close> is the whole array.\<close>

lemma storeMemory_cap_zero:
  "maxMemorySize a = 0 \<Longrightarrow>
     memory (storeMemory a now nid inp) = memory a @ [memoryItem now nid inp]"
  by (simp add: storeMemory_def slice_last_def Let_def)

text \<open>On a memory in the order of strictly increasing timestamps, the order in which
  \<open>storeMemory\<close> appends, the in-place sort of \<open>getRecentMemories\<close> reverses the
  array.\<close>

lemma newest_first_rev:
  "sorted_wrt (<) (map mem_timestamp xs) \<Longrightarrow> newest_first xs = rev xs"
proof (induction xs rule: rev_induct)
  case Nil
  show ?case by (simp add: newest_first_def)
next
  case (snoc x xs)
  have s: "sorted_wrt (<) (map mem_timestamp xs)"
    and b: "\<forall>y \<in> set xs. mem_timestamp y < mem_timestamp x"
    using snoc.prems by (auto simp add: sorted_wrt_append)
  have "sort_key (\<lambda>m. - mem_timestamp m) (xs @ [x]) = x # sort_key (\<lambda>m. - mem_timestamp m) xs"
    using b by (intro sort_key_snoc_least) simp
  then show ?case using snoc.IH [OF s] by (simp add: newest_first_def)
qed

text \<open>So for every cap, the default 1000 too: when the memory is full and in append
  order, a call of \<open>getRecentMemories\<close> followed by \<open>storeMemory\<close> drops the newest of
  the old entries and keeps all the others, the oldest among them.\<close>

lemma eviction_after_sort:
  assumes "length (memory a) = maxMemorySize a" and "0 < maxMemorySize a"
    and "sorted_wrt (<) (map mem_timestamp (memory a))"
  shows "memory (storeMemory (snd (getRecentMemories a k)) now nid inp)
           = rev (butlast (memory a)) @ [memoryItem now nid inp]"
proof -
  have n: "memory a \<noteq> []" using assms(1,2) by auto
  have m: "memory (snd (getRecentMemories a k)) = rev (memory a)"
    using assms(3) by (simp add: getRecentMemories_def newest_first_rev)
  have c: "maxMemorySize (snd (getRecentMemories a k)) = length (memory a)"
    using assms(1) by (simp add: getRecentMemories_def)
  have "drop 1 (rev (memory a) @ [memoryItem now nid inp])
      = rev (butlast (memory a)) @ [memoryItem now nid inp]"
  proof -
    have "tl (rev (memory a)) = rev (butlast (memory a))"
      by (metis butlast_rev rev_rev_ident)
    moreover have "Suc 0 - length (memory a) = 0"
      using n by (cases "memory a") simp_all
    ultimately show ?thesis using n by (simp add: drop_Suc)
  qed
  then show ?thesis using n by (simp add: storeMemory_def Let_def m c slice_last_def)
qed

lemma sorted_numbered: "sorted_wrt (<) (map (mem_timestamp \<circ> numbered) [a..<b])"
  by (simp add: sorted_wrt_map numbered_def comp_def)

text \<open>The same on a small agent, from an empty memory and through the agent's own
  operations. With cap 2: store \<open>first\<close> at time 1 and \<open>second\<close> at time 2, call
  \<open>getRecentMemories(1)\<close>, store \<open>third\<close> at time 3. The memory then holds \<open>first\<close> and
  \<open>third\<close>.\<close>

lemma small_cap_evicts_newest:
  "map mem_type (memory
     (storeMemory
        (snd (getRecentMemories
                (storeMemory (storeMemory (fresh_agent 2) 1 ''id_1'' (remember ''first''))
                   2 ''id_2'' (remember ''second'')) 1))
        3 ''id_3'' (remember ''third'')))
     = [''first'', ''third'']"
  by (simp add: getRecentMemories_def storeMemory_def fresh_agent_def remember_def
      memoryItem_def newest_first_def slice_last_def Let_def)

text \<open>
  Claim C9 says that when the cap would be exceeded the oldest entries are evicted and
  the entries kept are the most recently appended ones. \<open>storeMemory\<close> keeps the last
  entries of the array, and \<open>getRecentMemories\<close> sorts the array in place, newest
  first. On the agent with the default cap 1000 and a full memory, entries 1 to 1000 in
  the order of their storing: after a call of \<open>getRecentMemories(5)\<close>, storing a new
  entry at time 1001 evicts entry 1000, the newest of the old ones, and keeps entry 1,
  the oldest. The entries kept are not the 1000 most recently appended.
\<close>

theorem default_cap_evicts_newest:
  "memory (storeMemory (snd (getRecentMemories full_agent 5)) 1001 ''id_1001''
             (remember ''new''))
     = rev (map numbered [1..<1000]) @ [memoryItem 1001 ''id_1001'' (remember ''new'')]
   \<and> numbered 1 \<in> set (memory (storeMemory (snd (getRecentMemories full_agent 5)) 1001
          ''id_1001'' (remember ''new'')))
   \<and> numbered 1000 \<notin> set (memory (storeMemory (snd (getRecentMemories full_agent 5)) 1001
          ''id_1001'' (remember ''new'')))"
proof -
  have l: "length (memory full_agent) = maxMemorySize full_agent"
    by (simp add: full_agent_def fresh_agent_def)
  have c: "0 < maxMemorySize full_agent"
    by (simp add: full_agent_def fresh_agent_def)
  have s: "sorted_wrt (<) (map mem_timestamp (memory full_agent))"
    by (simp add: full_agent_def sorted_numbered)
  have b: "butlast (memory full_agent) = map numbered [1..<1000]"
  proof -
    have "[1..<1001] = [1..<1000] @ [1000::nat]"
      using upt_Suc_append [of 1 1000] by simp
    then have "butlast [1..<1001] = [1..<1000::nat]"
      by (simp only: butlast_snoc)
    then have "butlast (map numbered [1..<1001]) = map numbered [1..<1000]"
      by (simp only: map_butlast [symmetric])
    then show ?thesis by (simp add: full_agent_def)
  qed
  have m: "memory (storeMemory (snd (getRecentMemories full_agent 5)) 1001 ''id_1001''
             (remember ''new''))
     = rev (map numbered [1..<1000]) @ [memoryItem 1001 ''id_1001'' (remember ''new'')]"
    using eviction_after_sort [OF l c s, of 5 1001 "''id_1001''" "remember ''new''"] b
    by simp
  have i: "inj numbered"
    by (auto simp add: inj_on_def numbered_def)
  have o: "numbered 1 \<in> set (map numbered [1..<1000])"
    by simp
  have n: "numbered 1000 \<notin> set (map numbered [1..<1000])"
    using i by (auto simp add: inj_eq)
  have d: "numbered 1000 \<noteq> memoryItem 1001 ''id_1001'' (remember ''new'')"
    by (simp add: numbered_def memoryItem_def)
  show ?thesis using m o n d by simp
qed

end
